theory Spec2Isabelle
  imports Main "HOL-Library.Sublist"
begin

section \<open>Go string primitives used by the repository\<close>

text \<open>
  Go strings are byte sequences; they are modelled as \<open>string\<close> (a list of 8-bit
  characters).  The functions below follow the Go standard library functions of the
  same names, as far as the repository calls them.
\<close>

definition HasPrefix :: "string \<Rightarrow> string \<Rightarrow> bool" where
  "HasPrefix s pre = (length pre \<le> length s \<and> take (length pre) s = pre)"

definition HasSuffix :: "string \<Rightarrow> string \<Rightarrow> bool" where
  "HasSuffix s suf =
     (length suf \<le> length s \<and> drop (length s - length suf) s = suf)"

definition TrimPrefix :: "string \<Rightarrow> string \<Rightarrow> string" where
  "TrimPrefix s pre = (if HasPrefix s pre then drop (length pre) s else s)"

definition TrimSuffix :: "string \<Rightarrow> string \<Rightarrow> string" where
  "TrimSuffix s suf = (if HasSuffix s suf then take (length s - length suf) s else s)"

text \<open>\<open>strings.Index\<close>: the first position at which \<open>substr\<close> starts, \<open>None\<close> for -1.\<close>

fun Index :: "string \<Rightarrow> string \<Rightarrow> nat option" where
  "Index [] substr = (if substr = [] then Some 0 else None)"
| "Index (c # cs) substr =
     (if HasPrefix (c # cs) substr then Some 0 else map_option Suc (Index cs substr))"

definition Contains :: "string \<Rightarrow> string \<Rightarrow> bool" where
  "Contains s substr = (Index s substr \<noteq> None)"

subsection \<open>\<open>utf8.RuneCountInString\<close>\<close>

text \<open>
  The width in bytes of the encoding that starts the non-empty byte string \<open>c # cs\<close>,
  after the tables \<open>first\<close> and \<open>acceptRanges\<close> of package \<open>unicode/utf8\<close>: an invalid or
  short encoding has width 1.
\<close>

definition in_range :: "nat \<Rightarrow> nat \<Rightarrow> string \<Rightarrow> nat \<Rightarrow> bool" where
  "in_range lo hi s i = (i < length s \<and> lo \<le> of_char (s ! i) \<and> of_char (s ! i) \<le> (hi::nat))"

definition rune_width :: "char \<Rightarrow> string \<Rightarrow> nat" where
  "rune_width c cs =
     (let b = (of_char c :: nat); s = c # cs in
      if b < 0x80 then 1
      else if b < 0xC2 \<or> 0xF4 < b then 1
      else
        let size = (if b < 0xE0 then 2 else if b < 0xF0 then 3 else 4);
            lo = (if b = 0xE0 then 0xA0 else if b = 0xF0 then 0x90 else 0x80);
            hi = (if b = 0xED then 0x9F else if b = 0xF4 then 0x8F else 0xBF)
        in
          if length s < size then 1
          else if \<not> in_range lo hi s 1 then 1
          else if size = 2 then 2
          else if \<not> in_range 0x80 0xBF s 2 then 1
          else if size = 3 then 3
          else if \<not> in_range 0x80 0xBF s 3 then 1
          else 4)"

function RuneCountInString :: "string \<Rightarrow> nat" where
  "RuneCountInString [] = 0"
| "RuneCountInString (c # cs) = Suc (RuneCountInString (drop (rune_width c cs) (c # cs)))"
  by pat_completeness auto
termination
proof (relation "measure length")
  show "wf (measure length)" by simp
next
  fix c :: char and cs :: string
  have "0 < rune_width c cs" by (simp add: rune_width_def Let_def)
  then show "(drop (rune_width c cs) (c # cs), c # cs) \<in> measure length"
    by (cases "rune_width c cs") simp_all
qed

subsection \<open>\<open>strings.Count\<close>\<close>

text \<open>
  The loop of \<open>strings.Count\<close>: find the next instance with \<open>Index\<close>, count it, and go on
  behind it, so instances are counted without overlap.  Go reaches the loop only with a
  non-empty \<open>substr\<close>; the first test stands for that.
\<close>

function Count_loop :: "string \<Rightarrow> string \<Rightarrow> nat \<Rightarrow> nat" where
  "Count_loop s substr n =
     (if substr = [] then n
      else case Index s substr of
             None \<Rightarrow> n
           | Some i \<Rightarrow> Count_loop (drop (i + length substr) s) substr (n + 1))"
  by pat_completeness auto
termination
proof (relation "measure (\<lambda>(s, substr, n). length s)")
  show "wf (measure (\<lambda>(s, substr, n). length s))" by simp
next
  fix s substr :: string and n i :: nat
  assume ne: "substr \<noteq> []" and ix: "Index s substr = Some i"
  from ne ix have "s \<noteq> []" by (cases s) simp_all
  moreover from ne have "0 < i + length substr" by simp
  ultimately have "length (drop (i + length substr) s) < length s" by simp
  then show "((drop (i + length substr) s, substr, n + 1), (s, substr, n))
               \<in> measure (\<lambda>(s, substr, n). length s)"
    by simp
qed

definition Count :: "string \<Rightarrow> string \<Rightarrow> nat" where
  "Count s substr =
     (if substr = [] then RuneCountInString s + 1 else Count_loop s substr 0)"

section \<open>Package route53: the zone-scoped provider\<close>

datatype ChangeAction = ChangeActionCreate | ChangeActionDelete | ChangeActionUpsert

datatype RRType =
    RRTypeSoa | RRTypeA | RRTypeTxt | RRTypeNs | RRTypeCname | RRTypeMx | RRTypeNaptr
  | RRTypePtr | RRTypeSrv | RRTypeSpf | RRTypeAaaa | RRTypeCaa | RRTypeDs

record ResourceRecord =
  rr_Value :: string

record ResourceRecordSet =
  rrs_Name :: string
  rrs_Type :: RRType
  rrs_TTL :: int
  rrs_ResourceRecords :: "ResourceRecord list"

record Change =
  ch_Action :: ChangeAction
  ch_ResourceRecordSet :: ResourceRecordSet

record ChangeBatch =
  cb_Changes :: "Change list"

record ChangeResourceRecordSetsInput =
  in_HostedZoneId :: string
  in_ChangeBatch :: ChangeBatch

text \<open>
  The errors \<open>UpdateRecord\<close> returns: its own three \<open>fmt.Errorf\<close> values, and whatever
  the Route53 client returns.
\<close>

datatype error =
    ErrEmptyArgument
  | ErrNotInZone string string
  | ErrZoneRepeated string string
  | ErrUpstream string

fun error_string :: "error \<Rightarrow> string" where
  "error_string ErrEmptyArgument = ''fqdn and ip must not be empty''"
| "error_string (ErrNotInZone fqdn zone) =
     ''FQDN '' @ fqdn @ '' does not belong to hosted zone '' @ zone"
| "error_string (ErrZoneRepeated fqdn zone) =
     ''FQDN '' @ fqdn @ '' contains zone name '' @ zone @ '' multiple times''"
| "error_string (ErrUpstream msg) = msg"

text \<open>
  The Route53 client is outside the repository.  It is a transition on a backend state
  \<open>'b\<close>: \<open>ChangeResourceRecordSets\<close> takes the request and the backend, and returns the
  error (if any) and the backend after the call.
\<close>

type_synonym 'b client = "ChangeResourceRecordSetsInput \<Rightarrow> 'b \<Rightarrow> error option \<times> 'b"

record 'b Provider =
  client :: "'b client"
  zoneID :: string
  zoneName :: string

definition validateFQDN :: "('b, 'x) Provider_scheme \<Rightarrow> string \<Rightarrow> error option" where
  "validateFQDN p fqdn =
     (let cleanFQDN = TrimSuffix fqdn ''.'';
          cleanZone = TrimSuffix (zoneName p) ''.''
      in if \<not> HasSuffix cleanFQDN (''.'' @ cleanZone) \<and> cleanFQDN \<noteq> cleanZone
         then Some (ErrNotInZone fqdn (zoneName p))
         else if Count cleanFQDN cleanZone > 1
         then Some (ErrZoneRepeated fqdn (zoneName p))
         else None)"

definition change_input :: "('b, 'x) Provider_scheme \<Rightarrow> string \<Rightarrow> string \<Rightarrow> ChangeResourceRecordSetsInput" where
  "change_input p fqdn ip =
     \<lparr> in_HostedZoneId = zoneID p,
       in_ChangeBatch = \<lparr> cb_Changes =
         [\<lparr> ch_Action = ChangeActionUpsert,
            ch_ResourceRecordSet =
              \<lparr> rrs_Name = fqdn, rrs_Type = RRTypeA, rrs_TTL = 60,
                rrs_ResourceRecords = [\<lparr> rr_Value = ip \<rparr>] \<rparr> \<rparr>] \<rparr> \<rparr>"

text \<open>
  \<open>UpdateRecord\<close> returns its error, the list of requests it sent to the client (in
  order), and the backend afterwards.
\<close>

definition UpdateRecord ::
  "('b, 'x) Provider_scheme \<Rightarrow> string \<Rightarrow> string \<Rightarrow> 'b
     \<Rightarrow> error option \<times> ChangeResourceRecordSetsInput list \<times> 'b" where
  "UpdateRecord p fqdn ip backend =
     (if fqdn = [] \<or> ip = [] then (Some ErrEmptyArgument, [], backend)
      else case validateFQDN p fqdn of
             Some err \<Rightarrow> (Some err, [], backend)
           | None \<Rightarrow>
               (let input = change_input p fqdn ip;
                    (err, backend') = client p input backend
                in (err, [input], backend')))"

subsection \<open>\<open>strings.SplitN\<close>\<close>

text \<open>
  \<open>SplitN s sep n\<close> for a non-empty separator and \<open>n > 0\<close>, which is how the repository
  calls it (\<open>SplitN(payload, ":", 2)\<close>): at most \<open>n - 1\<close> cuts, the rest of the string
  is the last piece.  \<open>n = 0\<close> gives Go's nil slice.
\<close>

fun SplitN_loop :: "string \<Rightarrow> string \<Rightarrow> nat \<Rightarrow> string list" where
  "SplitN_loop s sep 0 = [s]"
| "SplitN_loop s sep (Suc k) =
     (case Index s sep of
        None \<Rightarrow> [s]
      | Some m \<Rightarrow> take m s # SplitN_loop (drop (m + length sep) s) sep k)"

definition SplitN :: "string \<Rightarrow> string \<Rightarrow> nat \<Rightarrow> string list" where
  "SplitN s sep n = (if n = 0 then [] else SplitN_loop s sep (n - 1))"

subsection \<open>\<open>base64.StdEncoding.DecodeString\<close>\<close>

text \<open>
  The standard alphabet with \<open>=\<close> padding, not strict about trailing bits.  Go skips
  carriage returns and line feeds wherever it reads a character, so they are removed
  first; then the input is a sequence of four-character quanta, of which only the last
  may be padded.  \<open>None\<close> stands for any \<open>CorruptInputError\<close>.
\<close>

definition b64_value :: "char \<Rightarrow> nat option" where
  "b64_value c =
     (let n = (of_char c :: nat) in
      if 65 \<le> n \<and> n \<le> 90 then Some (n - 65)
      else if 97 \<le> n \<and> n \<le> 122 then Some (n - 71)
      else if 48 \<le> n \<and> n \<le> 57 then Some (n + 4)
      else if n = 43 then Some 62
      else if n = 47 then Some 63
      else None)"

definition b64_byte0 :: "nat \<Rightarrow> nat \<Rightarrow> char" where
  "b64_byte0 va vb = char_of (va * 4 + vb div 16)"

definition b64_byte1 :: "nat \<Rightarrow> nat \<Rightarrow> char" where
  "b64_byte1 vb vc = char_of ((vb mod 16) * 16 + vc div 4)"

definition b64_byte2 :: "nat \<Rightarrow> nat \<Rightarrow> char" where
  "b64_byte2 vc vd = char_of ((vc mod 4) * 64 + vd)"

fun decode_quanta :: "string \<Rightarrow> string option" where
  "decode_quanta [] = Some []"
| "decode_quanta (a # b # c # d # rest) =
     (case (b64_value a, b64_value b) of
        (Some va, Some vb) \<Rightarrow>
          (if c = CHR ''=''
           then (if d = CHR ''='' \<and> rest = [] then Some [b64_byte0 va vb] else None)
           else
             (case b64_value c of
                None \<Rightarrow> None
              | Some vc \<Rightarrow>
                  (if d = CHR ''=''
                   then (if rest = [] then Some [b64_byte0 va vb, b64_byte1 vb vc] else None)
                   else
                     (case b64_value d of
                        None \<Rightarrow> None
                      | Some vd \<Rightarrow>
                          map_option
                            (\<lambda>t. b64_byte0 va vb # b64_byte1 vb vc # b64_byte2 vc vd # t)
                            (decode_quanta rest)))))
      | _ \<Rightarrow> None)"
| "decode_quanta _ = None"

definition DecodeString :: "string \<Rightarrow> string option" where
  "DecodeString s = decode_quanta (filter (\<lambda>c. c \<noteq> CHR 0x0A \<and> c \<noteq> CHR 0x0D) s)"

section \<open>Package server: the DynDNS update handler\<close>

subsection \<open>Constants\<close>

definition MsgGood :: string where "MsgGood = ''good''"
definition MsgNoChg :: string where "MsgNoChg = ''nochg''"
definition MsgBadAuth :: string where "MsgBadAuth = ''badauth''"
definition MsgNotDonator :: string where "MsgNotDonator = ''!donator''"
definition MsgNotFQDN :: string where "MsgNotFQDN = ''nofqdn''"
definition MsgNoHost :: string where "MsgNoHost = ''nohost''"
definition MsgNumHost :: string where "MsgNumHost = ''numhost''"
definition MsgAbuse :: string where "MsgAbuse = ''abuse''"
definition MsgBadAgent :: string where "MsgBadAgent = ''badagent''"
definition MsgDNSErr :: string where "MsgDNSErr = ''dnserr''"
definition Msg911 :: string where "Msg911 = ''911''"

definition validUser :: string where "validUser = ''user''"
definition validPassword :: string where "validPassword = ''pass''"
definition validUserAgent :: string where "validUserAgent = ''dyndnsr53-client''"

definition StatusOK :: int where "StatusOK = 200"
definition StatusBadRequest :: int where "StatusBadRequest = 400"
definition StatusUnauthorized :: int where "StatusUnauthorized = 401"
definition StatusMethodNotAllowed :: int where "StatusMethodNotAllowed = 405"
definition MethodGet :: string where "MethodGet = ''GET''"

definition newline :: char where "newline = CHR 0x0A"

subsection \<open>The request, the clock and the response writer\<close>

text \<open>
  \<open>http.Header\<close> and \<open>url.Values\<close> are maps from a key to a list of values; a key
  that is not there reads as the empty list, and \<open>Get\<close> is the first value or the empty
  string.  \<open>req_Query\<close> is what \<open>r.URL.Query()\<close> returns.
\<close>

record Request =
  req_RemoteAddr :: string
  req_Method :: string
  req_Header :: "string \<Rightarrow> string list"
  req_Query :: "string \<Rightarrow> string list"

definition Get :: "(string \<Rightarrow> string list) \<Rightarrow> string \<Rightarrow> string" where
  "Get m key = (case m key of [] \<Rightarrow> [] | v # _ \<Rightarrow> v)"

text \<open>
  A \<open>time.Time\<close> is kept as the outcome of formatting it for JSON: \<open>None\<close> when
  \<open>Time.MarshalJSON\<close> fails (a year outside 0..9999, or a bad zone offset).  The clock
  gives the value of \<open>time.Now()\<close> at the start of the handler and the text of
  \<open>time.Since(startTime).String()\<close> when the response is written.
\<close>

datatype Time = Time (rfc3339: "string option")

record Clock =
  now :: Time
  since :: string

record RequestLog =
  log_Timestamp :: Time
  log_RemoteAddr :: string
  log_Method :: string
  log_UserAgent :: string
  log_Username :: string
  log_FQDN :: string
  log_IP :: string
  log_StatusCode :: int
  log_Response :: string
  log_ErrorMessage :: string
  log_Duration :: string

datatype json_value = JString string | JNumber int

text \<open>
  A JSON value is kept as what the JSON text denotes, a string as its UTF-8 bytes; the
  escapes of the text are not modelled.  \<open>encoding/json\<close> writes a Go string byte by
  byte below \<open>0x80\<close> and rune by rune above, with the decoder of \<open>unicode/utf8\<close>; a byte
  that starts no valid encoding is written as \<open>U+FFFD\<close>, one for each such byte.
\<close>

definition replacement_char :: string where
  "replacement_char = [CHR 0xEF, CHR 0xBF, CHR 0xBD]"

function json_utf8 :: "string \<Rightarrow> string" where
  "json_utf8 [] = []"
| "json_utf8 (c # cs) =
     (if (0x80::nat) \<le> of_char c \<and> rune_width c cs = 1 then replacement_char
      else take (rune_width c cs) (c # cs))
     @ json_utf8 (drop (rune_width c cs) (c # cs))"
  by pat_completeness auto
termination
proof (relation "measure length")
  show "wf (measure length)" by simp
next
  fix c :: char and cs :: string
  have "0 < rune_width c cs" by (simp add: rune_width_def Let_def)
  then show "(drop (rune_width c cs) (c # cs), c # cs) \<in> measure length"
    by (cases "rune_width c cs") simp_all
qed

text \<open>
  \<open>json.Marshal\<close> of a \<open>RequestLog\<close>, as the list of the members of the JSON object in
  field order; a field tagged \<open>omitempty\<close> is left out when the Go string is empty.  The
  timestamp is the text \<open>Time.MarshalJSON\<close> gives (digits and \<open>-:.TZ+\<close> only), and the
  only way \<open>json.Marshal\<close> fails is through it.
\<close>

definition omitempty :: "string \<Rightarrow> string \<Rightarrow> (string \<times> json_value) list" where
  "omitempty key v = (if v = [] then [] else [(key, JString (json_utf8 v))])"

definition json_Marshal :: "RequestLog \<Rightarrow> (string \<times> json_value) list option" where
  "json_Marshal l =
     (case rfc3339 (log_Timestamp l) of
        None \<Rightarrow> None
      | Some ts \<Rightarrow> Some (
          [(''timestamp'', JString ts),
           (''remote_addr'', JString (json_utf8 (log_RemoteAddr l))),
           (''method'', JString (json_utf8 (log_Method l))),
           (''user_agent'', JString (json_utf8 (log_UserAgent l)))]
          @ omitempty ''username'' (log_Username l)
          @ omitempty ''fqdn'' (log_FQDN l)
          @ omitempty ''ip'' (log_IP l)
          @ [(''status_code'', JNumber (log_StatusCode l)),
             (''response'', JString (json_utf8 (log_Response l)))]
          @ omitempty ''error_message'' (log_ErrorMessage l)
          @ [(''duration'', JString (json_utf8 (log_Duration l)))]))"

text \<open>
  The response writer, as \<open>httptest.ResponseRecorder\<close> records it: the first
  \<open>WriteHeader\<close> fixes the status, and a \<open>Write\<close> before any \<open>WriteHeader\<close> fixes it
  at 200.
\<close>

record ResponseWriter =
  rw_wroteHeader :: bool
  rw_Code :: int
  rw_Body :: string

definition NewRecorder :: ResponseWriter where
  "NewRecorder = \<lparr> rw_wroteHeader = False, rw_Code = 200, rw_Body = [] \<rparr>"

definition WriteHeader :: "ResponseWriter \<Rightarrow> int \<Rightarrow> ResponseWriter" where
  "WriteHeader w code =
     (if rw_wroteHeader w then w else w\<lparr> rw_wroteHeader := True, rw_Code := code \<rparr>)"

definition Write :: "ResponseWriter \<Rightarrow> string \<Rightarrow> ResponseWriter" where
  "Write w bytes =
     (let w' = (if rw_wroteHeader w then w else WriteHeader w 200)
      in w'\<lparr> rw_Body := rw_Body w' @ bytes \<rparr>)"

definition Fprintln :: "ResponseWriter \<Rightarrow> string \<Rightarrow> ResponseWriter" where
  "Fprintln w message = Write w (message @ [newline])"

subsection \<open>Providers and the effects of the handler\<close>

text \<open>
  The interface \<open>provider.Provider\<close>: \<open>UpdateRecord\<close> acts on a world \<open>'w\<close> that the
  provider owns.  The server's provider field may be nil (\<open>None\<close>).
\<close>

type_synonym 'w provider = "string \<Rightarrow> string \<Rightarrow> 'w \<Rightarrow> error option \<times> 'w"

record 'w Server =
  provider :: "'w provider option"

text \<open>
  The Route53 provider as a \<open>provider\<close>: its world is the list of requests sent so far
  and the backend.
\<close>

definition Route53 ::
  "'b Provider \<Rightarrow> (ChangeResourceRecordSetsInput list \<times> 'b) provider" where
  "Route53 p fqdn ip world =
     (case world of (sent, backend) \<Rightarrow>
        (case UpdateRecord p fqdn ip backend of
           (err, reqs, backend') \<Rightarrow> (err, (sent @ reqs, backend'))))"

text \<open>The provider of the handler's tests, which records that it was called.\<close>

record MockProvider =
  updateCalled :: bool
  updateError :: "error option"

definition Mock_UpdateRecord :: "MockProvider provider" where
  "Mock_UpdateRecord fqdn ip m = (updateError m, m\<lparr> updateCalled := True \<rparr>)"

text \<open>
  What the handler does besides writing the response, in program order: lines of the
  \<open>slog\<close> logger (message and attributes), the JSON record handed to \<open>klog.InfoS\<close>, and
  the call of the provider.
\<close>

datatype event =
    SlogWarn string "(string \<times> string) list"
  | SlogInfo string "(string \<times> string) list"
  | SlogError string "(string \<times> string) list"
  | KlogInfoS string "(string \<times> json_value) list"
  | ProviderUpdateRecord string string

record 'w Outcome =
  events :: "event list"
  writer :: ResponseWriter
  world :: 'w

datatype panic = IndexOutOfRange nat nat

definition index :: "'a list \<Rightarrow> nat \<Rightarrow> panic + 'a" where
  "index xs i = (if i < length xs then Inr (xs ! i) else Inl (IndexOutOfRange i (length xs)))"

subsection \<open>\<open>dynDNSUpdateHandler\<close>\<close>

text \<open>
  The test \<open>len(parts) != 2 || parts[0] != validUser || parts[1] != validPassword\<close>,
  evaluated from left to right as Go does, with every index checked.
\<close>

definition bad_credentials :: "string list \<Rightarrow> panic + bool" where
  "bad_credentials parts =
     (if length parts \<noteq> 2 then Inr True
      else case index parts 0 of
             Inl p \<Rightarrow> Inl p
           | Inr user \<Rightarrow>
               if user \<noteq> validUser then Inr True
               else (case index parts 1 of
                       Inl p \<Rightarrow> Inl p
                     | Inr password \<Rightarrow> Inr (password \<noteq> validPassword)))"

definition logAndRespond ::
  "Clock \<Rightarrow> RequestLog \<Rightarrow> ResponseWriter \<Rightarrow> int \<Rightarrow> string \<Rightarrow> string
     \<Rightarrow> event list \<times> ResponseWriter" where
  "logAndRespond clk reqLog w statusCode message errorMsg =
     (let reqLog' = reqLog\<lparr> log_StatusCode := statusCode, log_Response := message,
                            log_ErrorMessage := errorMsg, log_Duration := since clk \<rparr>;
          logged = (case json_Marshal reqLog' of
                      Some logData \<Rightarrow> [KlogInfoS ''DynDNS request'' logData]
                    | None \<Rightarrow> []);
          w1 = (if statusCode \<noteq> StatusOK then WriteHeader w statusCode else w)
      in (logged, Fprintln w1 message))"

text \<open>
  A path of the handler that ends in \<open>logAndRespond\<close>: the events before it, then its
  own, with the world as it is at that point.
\<close>

definition respond ::
  "event list \<Rightarrow> 'w \<Rightarrow> Clock \<Rightarrow> RequestLog \<Rightarrow> ResponseWriter \<Rightarrow> int \<Rightarrow> string \<Rightarrow> string
     \<Rightarrow> panic + 'w Outcome" where
  "respond pre wld clk reqLog w statusCode message errorMsg =
     (case logAndRespond clk reqLog w statusCode message errorMsg of
        (logged, w') \<Rightarrow> Inr \<lparr> events = pre @ logged, writer = w', world = wld \<rparr>)"

definition dynDNSUpdateHandler ::
  "'w Server \<Rightarrow> Clock \<Rightarrow> ResponseWriter \<Rightarrow> Request \<Rightarrow> 'w \<Rightarrow> panic + 'w Outcome" where
  "dynDNSUpdateHandler s clk w r wld =
     (let startTime = now clk;
          reqLog = \<lparr> log_Timestamp = startTime,
                     log_RemoteAddr = req_RemoteAddr r,
                     log_Method = req_Method r,
                     log_UserAgent = Get (req_Header r) ''User-Agent'',
                     log_Username = [], log_FQDN = [], log_IP = [],
                     log_StatusCode = 0, log_Response = [],
                     log_ErrorMessage = [], log_Duration = [] \<rparr>;
          remote = (''remote'', req_RemoteAddr r);
          ua = Get (req_Header r) ''User-Agent''
      in
      if ua = [] \<or> \<not> Contains ua validUserAgent then
        respond [SlogWarn ''bad user agent'' [remote, (''user-agent'', ua)]]
          wld clk reqLog w StatusBadRequest MsgBadAgent ''invalid user agent''
      else if req_Method r \<noteq> MethodGet then
        respond [SlogWarn ''bad method'' [remote, (''method'', req_Method r)]]
          wld clk reqLog w StatusMethodNotAllowed MsgBadAgent ''method not allowed''
      else
        let auth = Get (req_Header r) ''Authorization'' in
        if \<not> HasPrefix auth ''Basic '' then
          respond [SlogWarn ''missing auth header'' [remote]]
            wld clk reqLog w StatusUnauthorized MsgBadAuth ''missing authorization header''
        else
          case DecodeString (TrimPrefix auth ''Basic '') of
            None \<Rightarrow>
              respond [SlogWarn ''bad base64 in auth header'' [remote]]
                wld clk reqLog w StatusUnauthorized MsgBadAuth ''invalid base64 in auth header''
          | Some payload \<Rightarrow>
              let parts = SplitN payload '':'' 2 in
              (case bad_credentials parts of
                 Inl p \<Rightarrow> Inl p
               | Inr True \<Rightarrow>
                   (case index parts 0 of
                      Inl p \<Rightarrow> Inl p
                    | Inr user \<Rightarrow>
                        respond [SlogWarn ''bad credentials'' [remote, (''user'', user)]]
                          wld clk reqLog w StatusUnauthorized MsgBadAuth ''invalid credentials'')
               | Inr False \<Rightarrow>
                   (case index parts 0 of
                      Inl p \<Rightarrow> Inl p
                    | Inr user \<Rightarrow>
                     let reqLog = reqLog\<lparr> log_Username := user \<rparr>;
                         fqdn = Get (req_Query r) ''hostname'';
                         ip = Get (req_Query r) ''myip'';
                         reqLog = reqLog\<lparr> log_FQDN := fqdn, log_IP := ip \<rparr>
                     in
                     if fqdn = [] then
                       respond [SlogWarn ''missing fqdn'' [remote]]
                         wld clk reqLog w StatusOK MsgNotFQDN ''missing hostname parameter''
                     else if ip = [] then
                       respond [SlogWarn ''missing ip'' [remote]]
                         wld clk reqLog w StatusOK MsgDNSErr ''missing myip parameter''
                     else
                       let request = SlogInfo ''update request'' [remote, (''fqdn'', fqdn), (''ip'', ip)] in
                       (case provider s of
                         Some p \<Rightarrow>
                           (case p fqdn ip wld of
                              (Some err, wld') \<Rightarrow>
                                respond [request, ProviderUpdateRecord fqdn ip,
                                         SlogError ''failed to update DNS record''
                                           [remote, (''error'', error_string err)]]
                                  wld' clk reqLog w StatusOK MsgDNSErr
                                  (''provider error: '' @ error_string err)
                            | (None, wld') \<Rightarrow>
                                respond [request, ProviderUpdateRecord fqdn ip]
                                  wld' clk reqLog w StatusOK (MsgGood @ '' '' @ ip) [])
                       | None \<Rightarrow>
                           respond [request,
                                    SlogWarn ''no provider configured, returning success without update''
                                      [remote]]
                             wld clk reqLog w StatusOK (MsgGood @ '' '' @ ip)
                        ''no provider configured''))))"

section \<open>Notions of the specification\<close>

subsection \<open>Zone membership\<close>

text \<open>
  Stripping one trailing dot, an occurrence of \<open>z\<close> in \<open>s\<close> at position \<open>i\<close>, the number
  of positions at which \<open>z\<close> occurs in \<open>s\<close>, and whether \<open>z\<close> occurs at two positions
  without overlap.
\<close>

definition strip_dot :: "string \<Rightarrow> string" where
  "strip_dot s = (if s \<noteq> [] \<and> last s = CHR ''.'' then butlast s else s)"

definition occurs_at :: "string \<Rightarrow> string \<Rightarrow> nat \<Rightarrow> bool" where
  "occurs_at s z i = (i + length z \<le> length s \<and> take (length z) (drop i s) = z)"

definition occurrences :: "string \<Rightarrow> string \<Rightarrow> nat" where
  "occurrences s z = length (filter (occurs_at s z) [0..<Suc (length s)])"

definition occurs_apart :: "string \<Rightarrow> string \<Rightarrow> bool" where
  "occurs_apart s z =
     list_ex (\<lambda>i. occurs_at s z i \<and>
        list_ex (\<lambda>j. i < j \<and> i + length z \<le> j \<and> occurs_at s z j) [0..<Suc (length s)])
       [0..<Suc (length s)]"


text \<open>
  Membership in the zone as the specification words it (the zone name occurs at most
  once as a substring), and with occurrences counted without overlap.
\<close>

definition zone_member_stated :: "string \<Rightarrow> string \<Rightarrow> bool" where
  "zone_member_stated zone fqdn =
     (let f = strip_dot fqdn; z = strip_dot zone
      in (f = z \<or> suffix (''.'' @ z) f) \<and> occurrences f z \<le> 1)"

definition zone_member :: "string \<Rightarrow> string \<Rightarrow> bool" where
  "zone_member zone fqdn =
     (let f = strip_dot fqdn; z = strip_dot zone
      in (f = z \<or> suffix (''.'' @ z) f) \<and> \<not> occurs_apart f z)"

subsection \<open>The validation pipeline\<close>

text \<open>
  The five checks of the specification in their order, each as a predicate on the
  request; the first one that fails; the response each check ends in; and what the
  handler has read of the request when a check fails.
\<close>

datatype check = CheckUserAgent | CheckMethod | CheckAuth | CheckHostname | CheckMyip

definition userAgent_ok :: "Request \<Rightarrow> bool" where
  "userAgent_ok r =
     (let ua = Get (req_Header r) ''User-Agent'' in ua \<noteq> [] \<and> Contains ua validUserAgent)"

definition method_ok :: "Request \<Rightarrow> bool" where
  "method_ok r = (req_Method r = ''GET'')"

definition credentials :: "string \<Rightarrow> (string \<times> string) option" where
  "credentials auth =
     (if HasPrefix auth ''Basic '' then
        (case DecodeString (drop 6 auth) of
           None \<Rightarrow> None
         | Some payload \<Rightarrow>
             if CHR '':'' \<in> set payload
             then Some (takeWhile (\<lambda>c. c \<noteq> CHR '':'') payload,
                        tl (dropWhile (\<lambda>c. c \<noteq> CHR '':'') payload))
             else None)
      else None)"

definition auth_ok :: "Request \<Rightarrow> bool" where
  "auth_ok r = (credentials (Get (req_Header r) ''Authorization'') = Some (''user'', ''pass''))"

definition hostname_ok :: "Request \<Rightarrow> bool" where
  "hostname_ok r = (Get (req_Query r) ''hostname'' \<noteq> [])"

definition myip_ok :: "Request \<Rightarrow> bool" where
  "myip_ok r = (Get (req_Query r) ''myip'' \<noteq> [])"

definition first_failing :: "Request \<Rightarrow> check option" where
  "first_failing r =
     (if \<not> userAgent_ok r then Some CheckUserAgent
      else if \<not> method_ok r then Some CheckMethod
      else if \<not> auth_ok r then Some CheckAuth
      else if \<not> hostname_ok r then Some CheckHostname
      else if \<not> myip_ok r then Some CheckMyip
      else None)"

fun terminal :: "check \<Rightarrow> string \<times> int" where
  "terminal CheckUserAgent = (''badagent'', 400)"
| "terminal CheckMethod = (''badagent'', 405)"
| "terminal CheckAuth = (''badauth'', 401)"
| "terminal CheckHostname = (''nofqdn'', 200)"
| "terminal CheckMyip = (''dnserr'', 200)"

fun view :: "check \<Rightarrow> Request \<Rightarrow> string list" where
  "view CheckUserAgent r =
     [req_RemoteAddr r, req_Method r, Get (req_Header r) ''User-Agent'']"
| "view CheckMethod r =
     [req_RemoteAddr r, req_Method r, Get (req_Header r) ''User-Agent'']"
| "view CheckAuth r =
     [req_RemoteAddr r, req_Method r, Get (req_Header r) ''User-Agent'',
      Get (req_Header r) ''Authorization'']"
| "view CheckHostname r =
     [req_RemoteAddr r, req_Method r, Get (req_Header r) ''User-Agent'',
      Get (req_Header r) ''Authorization'',
      Get (req_Query r) ''hostname'', Get (req_Query r) ''myip'']"
| "view CheckMyip r =
     [req_RemoteAddr r, req_Method r, Get (req_Header r) ''User-Agent'',
      Get (req_Header r) ''Authorization'',
      Get (req_Query r) ''hostname'', Get (req_Query r) ''myip'']"

text \<open>The response of a run of the handler: the body and the HTTP status.\<close>

definition response :: "panic + 'w Outcome \<Rightarrow> (string \<times> int) option" where
  "response res =
     (case res of Inl _ \<Rightarrow> None
      | Inr out \<Rightarrow> Some (rw_Body (writer out), rw_Code (writer out)))"

text \<open>
  Readings of the events: the provider calls, the records given to \<open>klog\<close>, the checks
  whose warning was logged, and whether the provider stage was entered.
\<close>

fun call_of :: "event \<Rightarrow> (string \<times> string) list" where
  "call_of (ProviderUpdateRecord fqdn ip) = [(fqdn, ip)]"
| "call_of _ = []"

fun klog_of :: "event \<Rightarrow> (string \<times> json_value) list list" where
  "klog_of (KlogInfoS msg members) = [members]"
| "klog_of _ = []"

fun rejection_of :: "event \<Rightarrow> check list" where
  "rejection_of (SlogWarn msg attrs) =
     (if msg = ''bad user agent'' then [CheckUserAgent]
      else if msg = ''bad method'' then [CheckMethod]
      else if msg = ''missing auth header'' \<or> msg = ''bad base64 in auth header''
              \<or> msg = ''bad credentials'' then [CheckAuth]
      else if msg = ''missing fqdn'' then [CheckHostname]
      else if msg = ''missing ip'' then [CheckMyip]
      else [])"
| "rejection_of _ = []"

fun update_request_of :: "event \<Rightarrow> (string \<times> string) list list" where
  "update_request_of (SlogInfo msg attrs) = (if msg = ''update request'' then [attrs] else [])"
| "update_request_of _ = []"

definition events_of :: "panic + 'w Outcome \<Rightarrow> event list" where
  "events_of res = (case res of Inl _ \<Rightarrow> [] | Inr out \<Rightarrow> events out)"

definition provider_calls :: "panic + 'w Outcome \<Rightarrow> (string \<times> string) list" where
  "provider_calls res = concat (map call_of (events_of res))"

definition klog_records :: "panic + 'w Outcome \<Rightarrow> (string \<times> json_value) list list" where
  "klog_records res = concat (map klog_of (events_of res))"

definition rejections :: "panic + 'w Outcome \<Rightarrow> check list" where
  "rejections res = concat (map rejection_of (events_of res))"


definition final_world :: "panic + 'w Outcome \<Rightarrow> 'w option" where
  "final_world res = (case res of Inl _ \<Rightarrow> None | Inr out \<Rightarrow> Some (world out))"

text \<open>
  The conditions of the response table of the specification, the table itself (with the
  ip for the two \<open>good\<close> rows), and the condition a request falls under.
\<close>

datatype condition =
    BadUserAgent | WrongMethod | BadAuth | MissingHostname | MissingMyip
  | ProviderFails | ProviderAbsent | ProviderSucceeds

fun table :: "condition \<Rightarrow> string \<Rightarrow> string \<times> int" where
  "table BadUserAgent ip = (''badagent'', 400)"
| "table WrongMethod ip = (''badagent'', 405)"
| "table BadAuth ip = (''badauth'', 401)"
| "table MissingHostname ip = (''nofqdn'', 200)"
| "table MissingMyip ip = (''dnserr'', 200)"
| "table ProviderFails ip = (''dnserr'', 200)"
| "table ProviderAbsent ip = (''good '' @ ip, 200)"
| "table ProviderSucceeds ip = (''good '' @ ip, 200)"

definition condition_of :: "'w Server \<Rightarrow> Request \<Rightarrow> 'w \<Rightarrow> condition" where
  "condition_of s r wld =
     (case first_failing r of
        Some CheckUserAgent \<Rightarrow> BadUserAgent
      | Some CheckMethod \<Rightarrow> WrongMethod
      | Some CheckAuth \<Rightarrow> BadAuth
      | Some CheckHostname \<Rightarrow> MissingHostname
      | Some CheckMyip \<Rightarrow> MissingMyip
      | None \<Rightarrow>
          (case provider s of
             None \<Rightarrow> ProviderAbsent
           | Some p \<Rightarrow>
               (case fst (p (Get (req_Query r) ''hostname'') (Get (req_Query r) ''myip'') wld) of
                  Some err \<Rightarrow> ProviderFails
                | None \<Rightarrow> ProviderSucceeds)))"

text \<open>The token of a response body: what stands before the first space or line end.\<close>

definition code_token :: "string \<Rightarrow> string" where
  "code_token body = takeWhile (\<lambda>c. c \<noteq> CHR '' '' \<and> c \<noteq> newline) body"

text \<open>The fields of the log record as they stand at each stage of the handler.\<close>

definition base_log :: "Clock \<Rightarrow> Request \<Rightarrow> RequestLog" where
  "base_log clk r =
     \<lparr> log_Timestamp = now clk, log_RemoteAddr = req_RemoteAddr r,
       log_Method = req_Method r, log_UserAgent = Get (req_Header r) ''User-Agent'',
       log_Username = [], log_FQDN = [], log_IP = [], log_StatusCode = 0,
       log_Response = [], log_ErrorMessage = [], log_Duration = [] \<rparr>"

definition auth_log :: "Clock \<Rightarrow> Request \<Rightarrow> RequestLog" where
  "auth_log clk r =
     (base_log clk r)\<lparr> log_Username := ''user'',
                       log_FQDN := Get (req_Query r) ''hostname'',
                       log_IP := Get (req_Query r) ''myip'' \<rparr>"

definition final_log :: "Clock \<Rightarrow> Request \<Rightarrow> RequestLog" where
  "final_log clk r =
     (if userAgent_ok r \<and> method_ok r \<and> auth_ok r then auth_log clk r else base_log clk r)"

text \<open>
  The members of the JSON record that carry the identity of the request: present once
  the credentials are accepted, each only when it is not empty, with the value as JSON
  holds it.
\<close>

definition identity_members :: "Request \<Rightarrow> (string \<times> json_value) list" where
  "identity_members r =
     (if userAgent_ok r \<and> method_ok r \<and> auth_ok r
      then [(''username'', JString ''user'')]
           @ omitempty ''fqdn'' (Get (req_Query r) ''hostname'')
           @ omitempty ''ip'' (Get (req_Query r) ''myip'')
      else [])"

text \<open>The warning and the error message of the branch on which the credentials fail.\<close>

definition auth_failure :: "string \<Rightarrow> string \<Rightarrow> event \<times> string" where
  "auth_failure remoteAddr auth =
     (if \<not> HasPrefix auth ''Basic ''
      then (SlogWarn ''missing auth header'' [(''remote'', remoteAddr)],
            ''missing authorization header'')
      else case DecodeString (drop 6 auth) of
             None \<Rightarrow> (SlogWarn ''bad base64 in auth header'' [(''remote'', remoteAddr)],
                      ''invalid base64 in auth header'')
           | Some payload \<Rightarrow>
               (SlogWarn ''bad credentials''
                  [(''remote'', remoteAddr),
                   (''user'', takeWhile (\<lambda>c. c \<noteq> CHR '':'') payload)],
                ''invalid credentials''))"


subsection \<open>Example providers\<close>

text \<open>
  A client that accepts every request and keeps it, and two providers over it: the one of
  \<open>TestValidateFQDN\<close> (zone \<open>blahonga.me\<close>) and one for the zone \<open>co.co\<close>.
\<close>

definition keep_client :: "ChangeResourceRecordSetsInput list client" where
  "keep_client input sent = (None, sent @ [input])"

definition blahonga :: "ChangeResourceRecordSetsInput list Provider" where
  "blahonga = \<lparr> client = keep_client, zoneID = ''Z1234567890'', zoneName = ''blahonga.me'' \<rparr>"

definition coco :: "ChangeResourceRecordSetsInput list Provider" where
  "coco = \<lparr> client = keep_client, zoneID = ''Z1234567890'', zoneName = ''co.co'' \<rparr>"

subsection \<open>Example requests\<close>

text \<open>
  Headers and query values from a list of pairs; the request of the handler's tests
  (\<open>GET /nic/update?hostname=test.example.com&myip=1.2.3.4\<close> with the valid user agent
  and credentials), the same with the credentials \<open>bad:creds\<close>, and the same without the
  \<open>hostname\<close> parameter; a clock; a server over the mock provider and one without
  provider.
\<close>

definition values_of :: "(string \<times> string) list \<Rightarrow> string \<Rightarrow> string list" where
  "values_of kvs key = map snd (filter (\<lambda>kv. fst kv = key) kvs)"

definition request_with :: "string \<Rightarrow> (string \<times> string) list \<Rightarrow> (string \<times> string) list \<Rightarrow> Request" where
  "request_with m hs qs =
     \<lparr> req_RemoteAddr = ''192.0.2.1:1234'', req_Method = m,
       req_Header = values_of hs, req_Query = values_of qs \<rparr>"

definition test_request :: Request where
  "test_request =
     request_with ''GET''
       [(''User-Agent'', ''dyndnsr53-client''), (''Authorization'', ''Basic dXNlcjpwYXNz'')]
       [(''hostname'', ''test.example.com''), (''myip'', ''1.2.3.4'')]"

definition bad_auth_request :: Request where
  "bad_auth_request =
     request_with ''GET''
       [(''User-Agent'', ''dyndnsr53-client''), (''Authorization'', ''Basic YmFkOmNyZWRz'')]
       [(''hostname'', ''test.example.com''), (''myip'', ''1.2.3.4'')]"

definition no_hostname_request :: Request where
  "no_hostname_request =
     request_with ''GET''
       [(''User-Agent'', ''dyndnsr53-client''), (''Authorization'', ''Basic dXNlcjpwYXNz'')]
       [(''myip'', ''1.2.3.4'')]"

definition test_clock :: Clock where
  "test_clock = \<lparr> now = Time (Some ''2025-09-17T20:38:09.588323+02:00''), since = ''70.166ms'' \<rparr>"

definition test_server :: "MockProvider Server" where
  "test_server = \<lparr> provider = Some Mock_UpdateRecord \<rparr>"

definition null_server :: "MockProvider Server" where
  "null_server = \<lparr> provider = None \<rparr>"

definition mock :: MockProvider where
  "mock = \<lparr> updateCalled = False, updateError = None \<rparr>"

text \<open>
  A server over the Route53 provider of the zone \<open>blahonga.me\<close>, the test request for a
  name of that zone, and the test request without user agent, as a POST, with the single
  byte \<open>0xFF\<close> as \<open>myip\<close> (\<open>myip=%ff\<close>), and without the \<open>myip\<close> parameter.
\<close>

definition route53_server ::
  "(ChangeResourceRecordSetsInput list \<times> ChangeResourceRecordSetsInput list) Server" where
  "route53_server = \<lparr> provider = Some (Route53 blahonga) \<rparr>"

definition home_request :: Request where
  "home_request =
     request_with ''GET''
       [(''User-Agent'', ''dyndnsr53-client''), (''Authorization'', ''Basic dXNlcjpwYXNz'')]
       [(''hostname'', ''home.blahonga.me''), (''myip'', ''1.2.3.4'')]"

definition no_agent_request :: Request where
  "no_agent_request =
     request_with ''GET''
       [(''Authorization'', ''Basic dXNlcjpwYXNz'')]
       [(''hostname'', ''test.example.com''), (''myip'', ''1.2.3.4'')]"

definition post_request :: Request where
  "post_request =
     request_with ''POST''
       [(''User-Agent'', ''dyndnsr53-client''), (''Authorization'', ''Basic dXNlcjpwYXNz'')]
       [(''hostname'', ''test.example.com''), (''myip'', ''1.2.3.4'')]"

definition raw_ip_request :: Request where
  "raw_ip_request =
     request_with ''GET''
       [(''User-Agent'', ''dyndnsr53-client''), (''Authorization'', ''Basic dXNlcjpwYXNz'')]
       [(''hostname'', ''test.example.com''), (''myip'', [CHR 0xFF])]"

definition no_myip_request :: Request where
  "no_myip_request =
     request_with ''GET''
       [(''User-Agent'', ''dyndnsr53-client''), (''Authorization'', ''Basic dXNlcjpwYXNz'')]
       [(''hostname'', ''test.example.com'')]"

section \<open>Lemmas\<close>

subsection \<open>Strings\<close>

lemma HasSuffix_suffix: "HasSuffix s t = suffix t s"
proof
  assume "HasSuffix s t"
  then have "s = take (length s - length t) s @ t"
    by (metis HasSuffix_def append_take_drop_id)
  then show "suffix t s" by (metis suffixI)
next
  assume "suffix t s"
  then obtain pre where "s = pre @ t" by (auto simp: suffix_def)
  then show "HasSuffix s t" by (simp add: HasSuffix_def)
qed

lemma TrimSuffix_dot: "TrimSuffix s ''.'' = strip_dot s"
proof (cases "s = []")
  case True
  then show ?thesis by (simp add: TrimSuffix_def HasSuffix_def strip_dot_def)
next
  case False
  then obtain xs x where s: "s = xs @ [x]" by (metis rev_exhaust)
  then show ?thesis
    by (simp add: TrimSuffix_def HasSuffix_def strip_dot_def)
qed

lemma HasPrefix_occurs: "HasPrefix s z = occurs_at s z 0"
  by (simp add: HasPrefix_def occurs_at_def)

lemma occurs_at_Cons: "occurs_at (c # cs) z (Suc i) = occurs_at cs z i"
  by (simp add: occurs_at_def)

lemma occurs_at_Nil: "occurs_at [] z i = (z = [] \<and> i = 0)"
  by (auto simp: occurs_at_def)

lemma Index_None: "(Index s z = None) = (\<forall>i. \<not> occurs_at s z i)"
proof (induction s)
  case Nil
  then show ?case by (auto simp: occurs_at_Nil)
next
  case (Cons c cs)
  show ?case
  proof (cases "HasPrefix (c # cs) z")
    case True
    then show ?thesis using HasPrefix_occurs by auto
  next
    case False
    have "(\<forall>i. \<not> occurs_at (c # cs) z i) = (\<forall>i. \<not> occurs_at cs z i)"
    proof
      assume a: "\<forall>i. \<not> occurs_at (c # cs) z i"
      show "\<forall>i. \<not> occurs_at cs z i"
      proof
        fix i from a have "\<not> occurs_at (c # cs) z (Suc i)" by blast
        then show "\<not> occurs_at cs z i" by (simp add: occurs_at_Cons)
      qed
    next
      assume a: "\<forall>i. \<not> occurs_at cs z i"
      show "\<forall>i. \<not> occurs_at (c # cs) z i"
      proof
        fix i show "\<not> occurs_at (c # cs) z i"
        proof (cases i)
          case 0 with False show ?thesis by (simp add: HasPrefix_occurs)
        next
          case (Suc k) with a show ?thesis by (simp add: occurs_at_Cons)
        qed
      qed
    qed
    with False Cons show ?thesis by simp
  qed
qed

lemma Index_Some: "Index s z = Some i \<Longrightarrow> occurs_at s z i \<and> (\<forall>k<i. \<not> occurs_at s z k)"
proof (induction s arbitrary: i)
  case Nil
  then show ?case by (auto simp: occurs_at_Nil split: if_splits)
next
  case (Cons c cs)
  show ?case
  proof (cases "HasPrefix (c # cs) z")
    case True
    with Cons.prems have "i = 0" by simp
    with True show ?thesis by (simp add: HasPrefix_occurs)
  next
    case False
    with Cons.prems obtain k where k: "Index cs z = Some k" and i: "i = Suc k" by auto
    from Cons.IH[OF k] have ih: "occurs_at cs z k" "\<forall>m<k. \<not> occurs_at cs z m" by auto
    have "\<forall>m<i. \<not> occurs_at (c # cs) z m"
    proof (intro allI impI)
      fix m assume "m < i"
      show "\<not> occurs_at (c # cs) z m"
      proof (cases m)
        case 0 with False show ?thesis by (simp add: HasPrefix_occurs)
      next
        case (Suc m') with \<open>m < i\<close> i ih(2) show ?thesis by (simp add: occurs_at_Cons)
      qed
    qed
    with ih(1) i show ?thesis by (simp add: occurs_at_Cons)
  qed
qed

lemma occurs_at_drop: "z \<noteq> [] \<Longrightarrow> occurs_at (drop k s) z j = occurs_at s z (k + j)"
  by (cases "k \<le> length s") (auto simp: occurs_at_def add.commute)

lemma Count_loop_ge: "n \<le> Count_loop s z n"
proof (induction s z n rule: Count_loop.induct)
  case (1 s substr n)
  show ?case
  proof (cases "substr = []")
    case True then show ?thesis by simp
  next
    case False
    show ?thesis
    proof (cases "Index s substr")
      case None with False show ?thesis by simp
    next
      case (Some i)
      from "1.IH"[OF False Some] have "n + 1 \<le> Count_loop (drop (i + length substr) s) substr (n + 1)" .
      with False Some show ?thesis by simp
    qed
  qed
qed

lemma Count_loop_twice:
  assumes "z \<noteq> []"
  shows "(n + 1 < Count_loop s z n) =
         (\<exists>i j. i + length z \<le> j \<and> occurs_at s z i \<and> occurs_at s z j)"
proof (cases "Index s z")
  case None
  then have "\<forall>i. \<not> occurs_at s z i" by (simp add: Index_None)
  moreover from None assms have "Count_loop s z n = n" by simp
  ultimately show ?thesis by auto
next
  case (Some i)
  let ?s' = "drop (i + length z) s"
  from Index_Some[OF Some] have oi: "occurs_at s z i" and first: "\<forall>k<i. \<not> occurs_at s z k" by auto
  from Some assms have cl: "Count_loop s z n = Count_loop ?s' z (n + 1)" by simp
  show ?thesis
  proof (cases "Index ?s' z")
    case None
    then have no: "\<forall>j. \<not> occurs_at s z (i + length z + j)"
      using occurs_at_drop[OF assms] by (simp add: Index_None)
    from None assms have "Count_loop ?s' z (n + 1) = n + 1" by simp
    moreover have "\<not> (\<exists>a b. a + length z \<le> b \<and> occurs_at s z a \<and> occurs_at s z b)"
    proof
      assume "\<exists>a b. a + length z \<le> b \<and> occurs_at s z a \<and> occurs_at s z b"
      then obtain a b where ab: "a + length z \<le> b" "occurs_at s z a" "occurs_at s z b" by blast
      from first ab(2) have "i \<le> a" by (meson not_le)
      with ab(1) have "i + length z \<le> b" by simp
      then obtain j where "b = i + length z + j" by (metis le_Suc_ex)
      with no ab(3) show False by blast
    qed
    ultimately show ?thesis using cl by simp
  next
    case (Some j)
    from Index_Some[OF Some] have "occurs_at ?s' z j" by simp
    then have oj: "occurs_at s z (i + length z + j)" using occurs_at_drop[OF assms] by simp
    from Some assms have "Count_loop ?s' z (n + 1) = Count_loop (drop (j + length z) ?s') z (n + 1 + 1)"
      by simp
    then have "n + 2 \<le> Count_loop s z n"
      using cl Count_loop_ge[of "n + 1 + 1" "drop (j + length z) ?s'" z] by simp
    moreover have "\<exists>a b. a + length z \<le> b \<and> occurs_at s z a \<and> occurs_at s z b"
      using oi oj by (metis le_add1)
    ultimately show ?thesis by simp
  qed
qed

lemma RuneCount_zero: "(RuneCountInString s = 0) = (s = [])"
  by (cases s) simp_all

lemma occurs_apart_iff:
  "occurs_apart s z = (\<exists>i j. i < j \<and> i + length z \<le> j \<and> occurs_at s z i \<and> occurs_at s z j)"
proof
  assume "occurs_apart s z"
  then obtain i j where "occurs_at s z i" "i < j" "i + length z \<le> j" "occurs_at s z j"
    unfolding occurs_apart_def list_ex_iff by blast
  then show "\<exists>i j. i < j \<and> i + length z \<le> j \<and> occurs_at s z i \<and> occurs_at s z j"
    by blast
next
  assume "\<exists>i j. i < j \<and> i + length z \<le> j \<and> occurs_at s z i \<and> occurs_at s z j"
  then obtain i j where ij: "i < j" "i + length z \<le> j" "occurs_at s z i" "occurs_at s z j"
    by blast
  have mem: "\<And>k. occurs_at s z k \<Longrightarrow> k \<in> set [0..<Suc (length s)]"
    by (auto simp: occurs_at_def)
  from ij mem[OF ij(3)] mem[OF ij(4)] show "occurs_apart s z"
    unfolding occurs_apart_def list_ex_iff by blast
qed

lemma occurs_apart_Nil: "occurs_apart s [] = (s \<noteq> [])"
proof
  assume "occurs_apart s []"
  then obtain i j where "i < j" "occurs_at s [] j"
    unfolding occurs_apart_iff by blast
  then show "s \<noteq> []" by (auto simp: occurs_at_def)
next
  assume "s \<noteq> []"
  then have "(0::nat) < 1 \<and> 0 + length ([]::string) \<le> 1 \<and> occurs_at s [] 0 \<and> occurs_at s [] 1"
    by (cases s) (simp_all add: occurs_at_def)
  then show "occurs_apart s []"
    unfolding occurs_apart_iff by blast
qed

lemma Count_le_one: "(Count s z \<le> 1) = (\<not> occurs_apart s z)"
proof (cases "z = []")
  case True
  have "(Count s [] \<le> 1) = (s = [])"
    by (simp add: Count_def RuneCount_zero)
  with True show ?thesis by (simp add: occurs_apart_Nil)
next
  case False
  have "occurs_apart s z = (\<exists>i j. i + length z \<le> j \<and> occurs_at s z i \<and> occurs_at s z j)"
  proof -
    have "\<And>i j. i + length z \<le> j \<Longrightarrow> i < j" using False by (cases z) simp_all
    then show ?thesis unfolding occurs_apart_iff by blast
  qed
  moreover have "(Count s z \<le> 1) = (\<not> 0 + 1 < Count_loop s z 0)"
    using False by (simp add: Count_def not_less del: Count_loop.simps)
  ultimately show ?thesis
    using Count_loop_twice[OF False, of 0 s] by simp
qed


subsection \<open>The handler, path by path\<close>

lemma Index_char:
  "Index s [c] = (if c \<in> set s then Some (length (takeWhile (\<lambda>x. x \<noteq> c) s)) else None)"
  by (induction s) (auto simp: HasPrefix_def)

lemma SplitN_colon:
  "SplitN payload '':'' 2 =
     (if CHR '':'' \<in> set payload
      then [takeWhile (\<lambda>c. c \<noteq> CHR '':'') payload, tl (dropWhile (\<lambda>c. c \<noteq> CHR '':'') payload)]
      else [payload])"
proof -
  let ?m = "length (takeWhile (\<lambda>c. c \<noteq> CHR '':'') payload)"
  have t: "take ?m payload = takeWhile (\<lambda>c. c \<noteq> CHR '':'') payload"
    by (rule takeWhile_eq_take[symmetric])
  have "drop (Suc ?m) payload = tl (drop ?m payload)"
    by (simp add: drop_Suc tl_drop)
  then have d: "drop (Suc ?m) payload = tl (dropWhile (\<lambda>c. c \<noteq> CHR '':'') payload)"
    by (simp only: dropWhile_eq_drop[symmetric])
  have "SplitN payload '':'' 2 = SplitN_loop payload '':'' (Suc 0)"
    by (simp add: SplitN_def)
  also have "\<dots> = (if CHR '':'' \<in> set payload
      then [take ?m payload, drop (Suc ?m) payload] else [payload])"
    by (simp add: Index_char)
  finally show ?thesis using t d by simp
qed

lemma takeWhile_no_colon: "CHR '':'' \<notin> set payload \<Longrightarrow> takeWhile (\<lambda>c. c \<noteq> CHR '':'') payload = payload"
  by (induction payload) auto

lemma TrimPrefix_Basic: "HasPrefix auth ''Basic '' \<Longrightarrow> TrimPrefix auth ''Basic '' = drop 6 auth"
  by (simp add: TrimPrefix_def eval_nat_numeral)

lemma bad_credentials_eq:
  "bad_credentials parts =
     Inr (length parts \<noteq> 2 \<or> parts ! 0 \<noteq> validUser \<or> parts ! 1 \<noteq> validPassword)"
  by (simp add: bad_credentials_def index_def)

lemma handler_bad_user_agent:
  "\<not> userAgent_ok r \<Longrightarrow>
   dynDNSUpdateHandler s clk w r wld =
     respond [SlogWarn ''bad user agent''
                [(''remote'', req_RemoteAddr r), (''user-agent'', Get (req_Header r) ''User-Agent'')]]
       wld clk (base_log clk r) w 400 ''badagent'' ''invalid user agent''"
  by (auto simp: dynDNSUpdateHandler_def userAgent_ok_def Let_def base_log_def
        StatusBadRequest_def MsgBadAgent_def)

lemma handler_bad_method:
  "userAgent_ok r \<Longrightarrow> \<not> method_ok r \<Longrightarrow>
   dynDNSUpdateHandler s clk w r wld =
     respond [SlogWarn ''bad method'' [(''remote'', req_RemoteAddr r), (''method'', req_Method r)]]
       wld clk (base_log clk r) w 405 ''badagent'' ''method not allowed''"
  by (auto simp: dynDNSUpdateHandler_def userAgent_ok_def method_ok_def Let_def base_log_def
        StatusMethodNotAllowed_def MsgBadAgent_def MethodGet_def)

lemma handler_bad_auth:
  assumes "userAgent_ok r" "method_ok r" "\<not> auth_ok r"
  shows "dynDNSUpdateHandler s clk w r wld =
     respond [fst (auth_failure (req_RemoteAddr r) (Get (req_Header r) ''Authorization''))]
       wld clk (base_log clk r) w 401 ''badauth''
       (snd (auth_failure (req_RemoteAddr r) (Get (req_Header r) ''Authorization'')))"
proof -
  let ?auth = "Get (req_Header r) ''Authorization''"
  from assms(1,2) have pre: "\<not> (Get (req_Header r) ''User-Agent'' = [] \<or> \<not> Contains (Get (req_Header r) ''User-Agent'') validUserAgent)"
    "req_Method r = MethodGet"
    by (simp_all add: userAgent_ok_def method_ok_def Let_def MethodGet_def)
  show ?thesis
  proof (cases "HasPrefix ?auth ''Basic ''")
    case False
    with pre show ?thesis
      by (simp add: dynDNSUpdateHandler_def Let_def auth_failure_def base_log_def
            StatusUnauthorized_def MsgBadAuth_def)
  next
    case True
    note hp = this
    show ?thesis
    proof (cases "DecodeString (drop 6 ?auth)")
      case None
      with pre hp show ?thesis
        by (simp add: dynDNSUpdateHandler_def Let_def auth_failure_def base_log_def
              StatusUnauthorized_def MsgBadAuth_def TrimPrefix_Basic)
    next
      case (Some payload)
      from assms(3) hp Some
      have bad: "length (SplitN payload '':'' 2) \<noteq> 2 \<or> SplitN payload '':'' 2 ! 0 \<noteq> validUser
                 \<or> SplitN payload '':'' 2 ! 1 \<noteq> validPassword"
        by (auto simp: auth_ok_def credentials_def SplitN_colon validUser_def validPassword_def
              split: if_splits)
      have ix: "index (SplitN payload '':'' 2) 0 = Inr (takeWhile (\<lambda>c. c \<noteq> CHR '':'') payload)"
        by (simp add: index_def SplitN_colon takeWhile_no_colon)
      from pre hp Some bad ix show ?thesis
        by (simp add: dynDNSUpdateHandler_def Let_def auth_failure_def base_log_def
              StatusUnauthorized_def MsgBadAuth_def TrimPrefix_Basic bad_credentials_eq)
    qed
  qed
qed

lemma auth_ok_parts:
  assumes "auth_ok r"
  shows "HasPrefix (Get (req_Header r) ''Authorization'') ''Basic '' \<and>
         (\<exists>payload. DecodeString (drop 6 (Get (req_Header r) ''Authorization'')) = Some payload
            \<and> SplitN payload '':'' 2 = [validUser, validPassword])"
  using assms
  by (auto simp: auth_ok_def credentials_def SplitN_colon validUser_def validPassword_def
        split: if_splits option.splits)

lemma handler_validated:
  assumes "userAgent_ok r" "method_ok r" "auth_ok r"
  shows "dynDNSUpdateHandler s clk w r wld =
    (let fqdn = Get (req_Query r) ''hostname''; ip = Get (req_Query r) ''myip'';
         remote = (''remote'', req_RemoteAddr r);
         request = SlogInfo ''update request'' [remote, (''fqdn'', fqdn), (''ip'', ip)]
     in if fqdn = [] then
          respond [SlogWarn ''missing fqdn'' [remote]]
            wld clk (auth_log clk r) w 200 ''nofqdn'' ''missing hostname parameter''
        else if ip = [] then
          respond [SlogWarn ''missing ip'' [remote]]
            wld clk (auth_log clk r) w 200 ''dnserr'' ''missing myip parameter''
        else
          (case provider s of
             Some p \<Rightarrow>
               (case p fqdn ip wld of
                  (Some err, wld') \<Rightarrow>
                    respond [request, ProviderUpdateRecord fqdn ip,
                             SlogError ''failed to update DNS record''
                               [remote, (''error'', error_string err)]]
                      wld' clk (auth_log clk r) w 200 ''dnserr''
                      (''provider error: '' @ error_string err)
                | (None, wld') \<Rightarrow>
                    respond [request, ProviderUpdateRecord fqdn ip]
                      wld' clk (auth_log clk r) w 200 (''good '' @ ip) [])
           | None \<Rightarrow>
               respond [request,
                        SlogWarn ''no provider configured, returning success without update''
                          [remote]]
                 wld clk (auth_log clk r) w 200 (''good '' @ ip) ''no provider configured''))"
proof -
  from assms(1,2) have pre: "\<not> (Get (req_Header r) ''User-Agent'' = [] \<or> \<not> Contains (Get (req_Header r) ''User-Agent'') validUserAgent)"
    "req_Method r = MethodGet"
    by (simp_all add: userAgent_ok_def method_ok_def Let_def MethodGet_def)
  from auth_ok_parts[OF assms(3)] obtain payload where
    hp: "HasPrefix (Get (req_Header r) ''Authorization'') ''Basic ''" and
    dec: "DecodeString (drop 6 (Get (req_Header r) ''Authorization'')) = Some payload" and
    sp: "SplitN payload '':'' 2 = [validUser, validPassword]"
    by blast
  from pre hp dec sp show ?thesis
    by (simp add: dynDNSUpdateHandler_def Let_def TrimPrefix_Basic auth_log_def base_log_def
          StatusOK_def MsgNotFQDN_def MsgDNSErr_def MsgGood_def validUser_def
          bad_credentials_eq index_def
          split: option.splits prod.splits)
qed

subsection \<open>The effects of \<open>respond\<close>\<close>

lemma response_respond:
  "response (respond pre wld clk l NewRecorder code msg err) = Some (msg @ [newline], code)"
  by (simp add: response_def respond_def logAndRespond_def Let_def Fprintln_def Write_def
        WriteHeader_def NewRecorder_def StatusOK_def)

lemma final_world_respond:
  "final_world (respond pre wld clk l w code msg err) = Some wld"
  by (simp add: final_world_def respond_def logAndRespond_def Let_def)


lemma events_of_respond:
  "events_of (respond pre wld clk l w code msg err) =
     pre @ (case json_Marshal (l\<lparr> log_StatusCode := code, log_Response := msg,
                                  log_ErrorMessage := err, log_Duration := since clk \<rparr>) of
              Some logData \<Rightarrow> [KlogInfoS ''DynDNS request'' logData] | None \<Rightarrow> [])"
  by (simp add: events_of_def respond_def logAndRespond_def Let_def)

lemma provider_calls_respond:
  "provider_calls (respond pre wld clk l w code msg err) = concat (map call_of pre)"
  by (auto simp: provider_calls_def events_of_respond split: option.splits)

lemma rejections_respond:
  "rejections (respond pre wld clk l w code msg err) = concat (map rejection_of pre)"
  by (auto simp: rejections_def events_of_respond split: option.splits)


lemma klog_records_respond:
  "klog_records (respond pre wld clk l w code msg err) =
     concat (map klog_of pre)
     @ (case json_Marshal (l\<lparr> log_StatusCode := code, log_Response := msg,
                                 log_ErrorMessage := err, log_Duration := since clk \<rparr>) of
          Some logData \<Rightarrow> [logData] | None \<Rightarrow> [])"
  by (simp add: klog_records_def events_of_respond split: option.splits)

lemma auth_failure_warn:
  "rejection_of (fst (auth_failure remote auth)) = [CheckAuth]
   \<and> call_of (fst (auth_failure remote auth)) = []
   \<and> klog_of (fst (auth_failure remote auth)) = []
   \<and> update_request_of (fst (auth_failure remote auth)) = []"
  by (simp add: auth_failure_def split: option.splits)

text \<open>
  Every run of the handler is one call of \<open>respond\<close>, with the row of the table the
  request falls under.
\<close>

lemma handler_shape:
  "\<exists>pre wld' err.
     dynDNSUpdateHandler s clk w r wld =
       respond pre wld' clk (final_log clk r) w
         (snd (table (condition_of s r wld) (Get (req_Query r) ''myip'')))
         (fst (table (condition_of s r wld) (Get (req_Query r) ''myip''))) err
     \<and> concat (map rejection_of pre) = (case first_failing r of None \<Rightarrow> [] | Some c \<Rightarrow> [c])
     \<and> concat (map call_of pre) =
         (if first_failing r = None \<and> provider s \<noteq> None
          then [(Get (req_Query r) ''hostname'', Get (req_Query r) ''myip'')] else [])
     \<and> concat (map klog_of pre) = []
     \<and> (concat (map update_request_of pre) \<noteq> []) = (first_failing r = None)
     \<and> (first_failing r = None \<or> wld' = wld)"
proof (cases "userAgent_ok r")
  case False
  then have ff: "first_failing r = Some CheckUserAgent" by (simp add: first_failing_def)
  show ?thesis
    apply (rule exI[of _ "[SlogWarn ''bad user agent''
                [(''remote'', req_RemoteAddr r), (''user-agent'', Get (req_Header r) ''User-Agent'')]]"])
    apply (rule exI[of _ wld])
    apply (rule exI[of _ "''invalid user agent''"])
    using False ff
    by (simp add: handler_bad_user_agent condition_of_def final_log_def)
next
  case ua: True
  show ?thesis
  proof (cases "method_ok r")
    case False
    with ua have ff: "first_failing r = Some CheckMethod" by (simp add: first_failing_def)
    show ?thesis
      apply (rule exI[of _ "[SlogWarn ''bad method'' [(''remote'', req_RemoteAddr r), (''method'', req_Method r)]]"])
      apply (rule exI[of _ wld])
      apply (rule exI[of _ "''method not allowed''"])
      using ua False ff
      by (simp add: handler_bad_method condition_of_def final_log_def)
  next
    case me: True
    show ?thesis
    proof (cases "auth_ok r")
      case False
      with ua me have ff: "first_failing r = Some CheckAuth" by (simp add: first_failing_def)
      show ?thesis
        apply (rule exI[of _ "[fst (auth_failure (req_RemoteAddr r) (Get (req_Header r) ''Authorization''))]"])
        apply (rule exI[of _ wld])
        apply (rule exI[of _ "snd (auth_failure (req_RemoteAddr r) (Get (req_Header r) ''Authorization''))"])
        using ua me False ff
        by (simp add: handler_bad_auth condition_of_def final_log_def auth_failure_warn)
    next
      case au: True
      note h = handler_validated[OF ua me au, of s clk w wld]
      show ?thesis
      proof (cases "Get (req_Query r) ''hostname'' = []")
        case True
        with ua me au have ff: "first_failing r = Some CheckHostname"
          by (simp add: first_failing_def hostname_ok_def)
        show ?thesis
          apply (rule exI[of _ "[SlogWarn ''missing fqdn'' [(''remote'', req_RemoteAddr r)]]"])
          apply (rule exI[of _ wld])
          apply (rule exI[of _ "''missing hostname parameter''"])
          using ua me au True ff
          by (simp add: h condition_of_def final_log_def Let_def)
      next
        case ho: False
        show ?thesis
        proof (cases "Get (req_Query r) ''myip'' = []")
          case True
          with ua me au ho have ff: "first_failing r = Some CheckMyip"
            by (simp add: first_failing_def hostname_ok_def myip_ok_def)
          show ?thesis
            apply (rule exI[of _ "[SlogWarn ''missing ip'' [(''remote'', req_RemoteAddr r)]]"])
            apply (rule exI[of _ wld])
            apply (rule exI[of _ "''missing myip parameter''"])
            using ua me au ho True ff
            by (simp add: h condition_of_def final_log_def Let_def)
        next
          case ip: False
          with ua me au ho have ff: "first_failing r = None"
            by (simp add: first_failing_def hostname_ok_def myip_ok_def)
          let ?fqdn = "Get (req_Query r) ''hostname''" and ?ip = "Get (req_Query r) ''myip''"
          let ?request = "SlogInfo ''update request''
                 [(''remote'', req_RemoteAddr r), (''fqdn'', ?fqdn), (''ip'', ?ip)]"
          show ?thesis
          proof (cases "provider s")
            case None
            show ?thesis
              apply (rule exI[of _ "[?request,
                   SlogWarn ''no provider configured, returning success without update''
                     [(''remote'', req_RemoteAddr r)]]"])
              apply (rule exI[of _ wld])
              apply (rule exI[of _ "''no provider configured''"])
              using ua me au ho ip ff None
              by (simp add: h condition_of_def final_log_def Let_def)
          next
            case (Some p)
            obtain e wld' where pr: "p ?fqdn ?ip wld = (e, wld')" by (cases "p ?fqdn ?ip wld")
            show ?thesis
            proof (cases e)
              case None
              show ?thesis
                apply (rule exI[of _ "[?request, ProviderUpdateRecord ?fqdn ?ip]"])
                apply (rule exI[of _ wld'])
                apply (rule exI[of _ "[]"])
                using ua me au ho ip ff Some pr None
                by (simp add: h condition_of_def final_log_def Let_def)
            next
              case (Some err)
              show ?thesis
                apply (rule exI[of _ "[?request, ProviderUpdateRecord ?fqdn ?ip,
                      SlogError ''failed to update DNS record''
                        [(''remote'', req_RemoteAddr r), (''error'', error_string err)]]"])
                apply (rule exI[of _ wld'])
                apply (rule exI[of _ "''provider error: '' @ error_string err"])
                using ua me au ho ip ff \<open>provider s = Some p\<close> pr Some
                by (simp add: h condition_of_def final_log_def Let_def)
            qed
          qed
        qed
      qed
    qed
  qed
qed

subsection \<open>Requests that agree on what a failing check has read\<close>

lemma view_first_failing:
  assumes "first_failing r = Some c" and "view c r' = view c r"
  shows "first_failing r' = Some c"
  using assms
  by (cases c)
     (auto simp: first_failing_def userAgent_ok_def method_ok_def auth_ok_def hostname_ok_def
        myip_ok_def Let_def split: if_splits)

lemma view_base_log:
  assumes "view c r' = view c r"
  shows "base_log clk r' = base_log clk r"
  using assms by (cases c) (simp_all add: base_log_def)

lemma handler_rejection_view:
  assumes ff: "first_failing r = Some c" and v: "view c r' = view c r"
  shows "dynDNSUpdateHandler s' clk w r' wld = dynDNSUpdateHandler s clk w r wld"
proof -
  note ff' = view_first_failing[OF ff v]
  note bl = view_base_log[OF v, of clk]
  show ?thesis
  proof (cases c)
    case CheckUserAgent
    from ff CheckUserAgent have a: "\<not> userAgent_ok r" by (auto simp: first_failing_def split: if_splits)
    from ff' CheckUserAgent have b: "\<not> userAgent_ok r'" by (auto simp: first_failing_def split: if_splits)
    from v CheckUserAgent show ?thesis
      by (simp add: handler_bad_user_agent[OF a] handler_bad_user_agent[OF b] bl)
  next
    case CheckMethod
    from ff CheckMethod have a: "userAgent_ok r" "\<not> method_ok r"
      by (auto simp: first_failing_def split: if_splits)
    from ff' CheckMethod have b: "userAgent_ok r'" "\<not> method_ok r'"
      by (auto simp: first_failing_def split: if_splits)
    from v CheckMethod show ?thesis
      by (simp add: handler_bad_method[OF a] handler_bad_method[OF b] bl)
  next
    case CheckAuth
    from ff CheckAuth have a: "userAgent_ok r" "method_ok r" "\<not> auth_ok r"
      by (auto simp: first_failing_def split: if_splits)
    from ff' CheckAuth have b: "userAgent_ok r'" "method_ok r'" "\<not> auth_ok r'"
      by (auto simp: first_failing_def split: if_splits)
    from v CheckAuth show ?thesis
      by (simp add: handler_bad_auth[OF a] handler_bad_auth[OF b] bl)
  next
    case CheckHostname
    from ff CheckHostname have a: "userAgent_ok r" "method_ok r" "auth_ok r"
      and a': "Get (req_Query r) ''hostname'' = []"
      by (auto simp: first_failing_def hostname_ok_def split: if_splits)
    from ff' CheckHostname have b: "userAgent_ok r'" "method_ok r'" "auth_ok r'"
      and b': "Get (req_Query r') ''hostname'' = []"
      by (auto simp: first_failing_def hostname_ok_def split: if_splits)
    from v CheckHostname a' b' show ?thesis
      by (simp add: handler_validated[OF a] handler_validated[OF b] bl auth_log_def)
  next
    case CheckMyip
    from ff CheckMyip have a: "userAgent_ok r" "method_ok r" "auth_ok r"
      and a': "Get (req_Query r) ''hostname'' \<noteq> []" "Get (req_Query r) ''myip'' = []"
      by (auto simp: first_failing_def hostname_ok_def myip_ok_def split: if_splits)
    from ff' CheckMyip have b: "userAgent_ok r'" "method_ok r'" "auth_ok r'"
      and b': "Get (req_Query r') ''hostname'' \<noteq> []" "Get (req_Query r') ''myip'' = []"
      by (auto simp: first_failing_def hostname_ok_def myip_ok_def split: if_splits)
    from v CheckMyip a' b' show ?thesis
      by (simp add: handler_validated[OF a] handler_validated[OF b] bl auth_log_def)
  qed
qed

lemma condition_of_rejected:
  "first_failing r = Some c \<Longrightarrow> table (condition_of s r wld) ip = terminal c"
  by (cases c) (simp_all add: condition_of_def)

subsection \<open>Tokens, the log record, credentials\<close>

lemma table_code_token:
  "code_token (fst (table c ip) @ [newline]) =
     (if c = ProviderAbsent \<or> c = ProviderSucceeds then ''good'' else fst (table c ip))"
  by (cases c) (simp_all add: code_token_def newline_def)

lemma rune_width_ascii: "of_char c < (0x80::nat) \<Longrightarrow> rune_width c cs = 1"
  by (simp add: rune_width_def Let_def)

lemma json_utf8_ascii_append:
  "list_all (\<lambda>c. of_char c < (0x80::nat)) p \<Longrightarrow> json_utf8 (p @ s) = p @ json_utf8 s"
  by (induction p) (simp_all add: rune_width_ascii)

lemma json_utf8_ascii:
  "list_all (\<lambda>c. of_char c < (0x80::nat)) p \<Longrightarrow> json_utf8 p = p"
  using json_utf8_ascii_append[of p "[]"] by simp

lemma json_utf8_table:
  "json_utf8 (fst (table c ip)) = fst (table c (json_utf8 ip))"
proof -
  have good: "json_utf8 (''good '' @ ip) = ''good '' @ json_utf8 ip"
    by (rule json_utf8_ascii_append) simp
  have "json_utf8 ''badagent'' = ''badagent''" "json_utf8 ''badauth'' = ''badauth''"
    "json_utf8 ''nofqdn'' = ''nofqdn''" "json_utf8 ''dnserr'' = ''dnserr''"
    by (rule json_utf8_ascii, simp)+
  with good show ?thesis by (cases c) simp_all
qed

lemma json_Marshal_final_log:
  assumes "rfc3339 (now clk) = Some ts"
  shows "json_Marshal ((final_log clk r)\<lparr> log_StatusCode := code, log_Response := msg,
                          log_ErrorMessage := err, log_Duration := since clk \<rparr>)
    = Some ([(''timestamp'', JString ts),
             (''remote_addr'', JString (json_utf8 (req_RemoteAddr r))),
             (''method'', JString (json_utf8 (req_Method r))),
             (''user_agent'', JString (json_utf8 (Get (req_Header r) ''User-Agent'')))]
            @ identity_members r
            @ [(''status_code'', JNumber code), (''response'', JString (json_utf8 msg))]
            @ omitempty ''error_message'' err
            @ [(''duration'', JString (json_utf8 (since clk)))])"
proof -
  have user: "json_utf8 ''user'' = ''user''"
    by (rule json_utf8_ascii) simp
  from assms show ?thesis
    by (simp add: json_Marshal_def final_log_def auth_log_def base_log_def
          identity_members_def omitempty_def user del: json_utf8.simps)
qed

lemma takeWhile_colon:
  "CHR '':'' \<notin> set u \<Longrightarrow> takeWhile (\<lambda>c. c \<noteq> CHR '':'') (u @ '':'' @ pw) = u"
  by (induction u) auto

lemma dropWhile_colon:
  "CHR '':'' \<notin> set u \<Longrightarrow> dropWhile (\<lambda>c. c \<noteq> CHR '':'') (u @ '':'' @ pw) = '':'' @ pw"
  by (induction u) auto

section \<open>The zone-scoped provider: claims C1, C6, C7, C10\<close>

lemma validateFQDN_iff:
  "(validateFQDN p fqdn = None) = zone_member (zoneName p) fqdn"
  by (simp add: validateFQDN_def zone_member_def Let_def TrimSuffix_dot HasSuffix_suffix
        Count_le_one[symmetric] not_less)

text \<open>
  Claim C1, with occurrences counted without overlap.  After one trailing dot is stripped from the fqdn and from the
  zone name, \<open>validateFQDN\<close> accepts the fqdn exactly when it equals the zone name or ends
  with a dot followed by the zone name, and the zone name does not occur in it at two
  positions without overlap (which is what \<open>strings.Count\<close> counts).  Against the zone
  \<open>blahonga.me\<close>: \<open>home.blahonga.me\<close>, \<open>blahonga.me\<close>, \<open>api.v1.home.blahonga.me\<close> and their
  trailing-dot variants are accepted; \<open>home.example.com\<close> and
  \<open>home.blahonga.me.blahonga.me\<close> are rejected, with or without the trailing dot.
\<close>

theorem validateFQDN_zone_member:
  "((validateFQDN p fqdn = None) = zone_member (zoneName p) fqdn)
   \<and> validateFQDN blahonga ''home.blahonga.me'' = None
   \<and> validateFQDN blahonga ''home.blahonga.me.'' = None
   \<and> validateFQDN blahonga ''blahonga.me'' = None
   \<and> validateFQDN blahonga ''blahonga.me.'' = None
   \<and> validateFQDN blahonga ''api.v1.home.blahonga.me'' = None
   \<and> validateFQDN blahonga ''api.v1.home.blahonga.me.'' = None
   \<and> validateFQDN blahonga ''home.example.com'' \<noteq> None
   \<and> validateFQDN blahonga ''home.example.com.'' \<noteq> None
   \<and> validateFQDN blahonga ''home.blahonga.me.blahonga.me'' \<noteq> None
   \<and> validateFQDN blahonga ''home.blahonga.me.blahonga.me.'' \<noteq> None"
proof -
  have ex: "validateFQDN blahonga ''home.blahonga.me'' = None
   \<and> validateFQDN blahonga ''home.blahonga.me.'' = None
   \<and> validateFQDN blahonga ''blahonga.me'' = None
   \<and> validateFQDN blahonga ''blahonga.me.'' = None
   \<and> validateFQDN blahonga ''api.v1.home.blahonga.me'' = None
   \<and> validateFQDN blahonga ''api.v1.home.blahonga.me.'' = None
   \<and> validateFQDN blahonga ''home.example.com'' \<noteq> None
   \<and> validateFQDN blahonga ''home.example.com.'' \<noteq> None
   \<and> validateFQDN blahonga ''home.blahonga.me.blahonga.me'' \<noteq> None
   \<and> validateFQDN blahonga ''home.blahonga.me.blahonga.me.'' \<noteq> None"
    by code_simp
  with validateFQDN_iff[of p fqdn] show ?thesis by blast
qed

theorem validateFQDN_zone_member_witness:
  "validateFQDN coco ''co.co.co'' = None \<and> zone_member ''co.co'' ''co.co.co''"
proof -
  have "validateFQDN coco ''co.co.co'' = None" by code_simp
  moreover have "zoneName coco = ''co.co''" by (simp add: coco_def)
  ultimately show ?thesis
    using validateFQDN_zone_member[of coco "''co.co.co''"] by simp
qed

text \<open>
  Claim C1 as it is stated counts every position at which the zone name occurs.  In the
  zone \<open>co.co\<close> the name \<open>co.co.co\<close> is a subdomain in which \<open>co.co\<close> occurs at positions 0
  and 3; the two occurrences overlap, \<open>strings.Count\<close> counts one, and \<open>validateFQDN\<close>
  accepts.
\<close>

theorem validateFQDN_overlap_counterexample:
  "\<not> ((validateFQDN coco ''co.co.co'' = None) = zone_member_stated (zoneName coco) ''co.co.co'')"
  by code_simp

text \<open>
  Claim C6.  When the fqdn or the ip is empty, or the fqdn fails \<open>validateFQDN\<close>,
  \<open>UpdateRecord\<close> returns an error, sends no request to the client, and leaves the
  backend as it was.
\<close>

theorem UpdateRecord_rejects:
  assumes "fqdn = [] \<or> ip = [] \<or> validateFQDN p fqdn \<noteq> None"
  shows "\<exists>err. UpdateRecord p fqdn ip backend = (Some err, [], backend)"
  using assms by (auto simp: UpdateRecord_def)

theorem UpdateRecord_rejects_witness:
  "(''home.example.com'' = [] \<or> ''1.2.3.4'' = [] \<or> validateFQDN blahonga ''home.example.com'' \<noteq> None)
   \<and> UpdateRecord blahonga ''home.example.com'' ''1.2.3.4'' []
       = (Some (ErrNotInZone ''home.example.com'' ''blahonga.me''), [], [])
   \<and> UpdateRecord blahonga '''' ''1.2.3.4'' [] = (Some ErrEmptyArgument, [], [])
   \<and> UpdateRecord blahonga ''home.blahonga.me'' '''' [] = (Some ErrEmptyArgument, [], [])"
proof -
  have h: "''home.example.com'' = [] \<or> ''1.2.3.4'' = [] \<or> validateFQDN blahonga ''home.example.com'' \<noteq> None"
    by code_simp
  from UpdateRecord_rejects[OF h, of "[]"]
  obtain err where e: "UpdateRecord blahonga ''home.example.com'' ''1.2.3.4'' [] = (Some err, [], [])"
    by blast
  have v: "UpdateRecord blahonga ''home.example.com'' ''1.2.3.4'' []
       = (Some (ErrNotInZone ''home.example.com'' ''blahonga.me''), [], [])
   \<and> UpdateRecord blahonga '''' ''1.2.3.4'' [] = (Some ErrEmptyArgument, [], [])
   \<and> UpdateRecord blahonga ''home.blahonga.me'' '''' [] = (Some ErrEmptyArgument, [], [])"
    by code_simp
  from h e v show ?thesis by blast
qed

text \<open>
  Claim C7.  When the fqdn and the ip are not empty and the fqdn passes \<open>validateFQDN\<close>,
  \<open>UpdateRecord\<close> sends exactly one request to the client, for the provider's hosted
  zone, with a single UPSERT change of an A record named by the fqdn, with TTL 60 and
  the ip as its only value; the error and the backend are those the client returns.
\<close>

theorem UpdateRecord_upsert:
  assumes "fqdn \<noteq> []" and "ip \<noteq> []" and "validateFQDN p fqdn = None"
  shows "\<exists>err backend'.
           client p
             \<lparr> in_HostedZoneId = zoneID p,
               in_ChangeBatch = \<lparr> cb_Changes =
                 [\<lparr> ch_Action = ChangeActionUpsert,
                    ch_ResourceRecordSet =
                      \<lparr> rrs_Name = fqdn, rrs_Type = RRTypeA, rrs_TTL = 60,
                        rrs_ResourceRecords = [\<lparr> rr_Value = ip \<rparr>] \<rparr> \<rparr>] \<rparr> \<rparr>
             backend = (err, backend')
         \<and> UpdateRecord p fqdn ip backend =
             (err,
              [\<lparr> in_HostedZoneId = zoneID p,
                 in_ChangeBatch = \<lparr> cb_Changes =
                   [\<lparr> ch_Action = ChangeActionUpsert,
                      ch_ResourceRecordSet =
                        \<lparr> rrs_Name = fqdn, rrs_Type = RRTypeA, rrs_TTL = 60,
                          rrs_ResourceRecords = [\<lparr> rr_Value = ip \<rparr>] \<rparr> \<rparr>] \<rparr> \<rparr>],
              backend')"
proof -
  obtain err backend' where "client p (change_input p fqdn ip) backend = (err, backend')"
    by (cases "client p (change_input p fqdn ip) backend")
  with assms show ?thesis
    by (simp add: UpdateRecord_def Let_def change_input_def)
qed

theorem UpdateRecord_upsert_witness:
  "''home.blahonga.me'' \<noteq> [] \<and> ''1.2.3.4'' \<noteq> [] \<and> validateFQDN blahonga ''home.blahonga.me'' = None
   \<and> UpdateRecord blahonga ''home.blahonga.me'' ''1.2.3.4'' [] =
       (None,
        [\<lparr> in_HostedZoneId = ''Z1234567890'',
           in_ChangeBatch = \<lparr> cb_Changes =
             [\<lparr> ch_Action = ChangeActionUpsert,
                ch_ResourceRecordSet =
                  \<lparr> rrs_Name = ''home.blahonga.me'', rrs_Type = RRTypeA, rrs_TTL = 60,
                    rrs_ResourceRecords = [\<lparr> rr_Value = ''1.2.3.4'' \<rparr>] \<rparr> \<rparr>] \<rparr> \<rparr>],
        [\<lparr> in_HostedZoneId = ''Z1234567890'',
           in_ChangeBatch = \<lparr> cb_Changes =
             [\<lparr> ch_Action = ChangeActionUpsert,
                ch_ResourceRecordSet =
                  \<lparr> rrs_Name = ''home.blahonga.me'', rrs_Type = RRTypeA, rrs_TTL = 60,
                    rrs_ResourceRecords = [\<lparr> rr_Value = ''1.2.3.4'' \<rparr>] \<rparr> \<rparr>] \<rparr> \<rparr>])"
proof -
  have h1: "''home.blahonga.me'' \<noteq> []" and h2: "''1.2.3.4'' \<noteq> []" by simp_all
  have h3: "validateFQDN blahonga ''home.blahonga.me'' = None" by code_simp
  have c: "client blahonga = keep_client" and z: "zoneID blahonga = ''Z1234567890''"
    by (simp_all add: blahonga_def)
  from UpdateRecord_upsert[OF h1 h2 h3, of "[]"] h1 h2 h3 show ?thesis
    by (simp add: c z keep_client_def)
qed

text \<open>
  Claim C10.  The name \<open>blahonga.me.x.blahonga.me\<close> is a proper subdomain of the zone
  \<open>blahonga.me\<close> (it ends with \<open>.blahonga.me\<close>), the zone name occurs twice in it, and
  \<open>validateFQDN\<close> rejects it with the error for a repeated zone name.
\<close>

theorem validateFQDN_rejects_subdomain:
  "suffix (''.'' @ ''blahonga.me'') (strip_dot ''blahonga.me.x.blahonga.me'')
   \<and> occurrences (strip_dot ''blahonga.me.x.blahonga.me'') ''blahonga.me'' = 2
   \<and> validateFQDN blahonga ''blahonga.me.x.blahonga.me''
       = Some (ErrZoneRepeated ''blahonga.me.x.blahonga.me'' ''blahonga.me'')"
  by code_simp

section \<open>The update handler: claims C2, C3, C4, C5, C8, C9\<close>

text \<open>
  Claim C2.  The handler takes the checks in the order user agent, method, credentials,
  \<open>hostname\<close>, \<open>myip\<close>.  When \<open>c\<close> is the first check a request fails, the response is
  the one of \<open>c\<close>, the only rejection logged is the one of \<open>c\<close>, the provider is not
  called and its world is unchanged; and the whole run is the same for any server and
  any request that agrees with this one on what the handler has read when \<open>c\<close> fails,
  so nothing a later check would read, and nothing of the provider, has a part in it.
\<close>

theorem first_failing_check_decides:
  assumes "first_failing r = Some c" and "view c r' = view c r"
  shows "response (dynDNSUpdateHandler s clk NewRecorder r wld)
           = Some (fst (terminal c) @ [newline], snd (terminal c))
       \<and> rejections (dynDNSUpdateHandler s clk NewRecorder r wld) = [c]
       \<and> provider_calls (dynDNSUpdateHandler s clk NewRecorder r wld) = []
       \<and> final_world (dynDNSUpdateHandler s clk NewRecorder r wld) = Some wld
       \<and> dynDNSUpdateHandler s' clk NewRecorder r' wld
           = dynDNSUpdateHandler s clk NewRecorder r wld"
proof -
  from handler_shape[of s clk NewRecorder r wld] obtain pre wld' err where
    h: "dynDNSUpdateHandler s clk NewRecorder r wld =
          respond pre wld' clk (final_log clk r) NewRecorder
            (snd (table (condition_of s r wld) (Get (req_Query r) ''myip'')))
            (fst (table (condition_of s r wld) (Get (req_Query r) ''myip''))) err"
    and rj: "concat (map rejection_of pre) = (case first_failing r of None \<Rightarrow> [] | Some c \<Rightarrow> [c])"
    and cl: "concat (map call_of pre) =
         (if first_failing r = None \<and> provider s \<noteq> None
          then [(Get (req_Query r) ''hostname'', Get (req_Query r) ''myip'')] else [])"
    and wl: "first_failing r = None \<or> wld' = wld"
    by blast
  from assms(1) have t: "table (condition_of s r wld) (Get (req_Query r) ''myip'') = terminal c"
    by (rule condition_of_rejected)
  have "response (dynDNSUpdateHandler s clk NewRecorder r wld)
           = Some (fst (terminal c) @ [newline], snd (terminal c))"
    by (simp only: h response_respond t)
  moreover have "rejections (dynDNSUpdateHandler s clk NewRecorder r wld) = [c]"
    using rj assms(1) by (simp add: h rejections_respond)
  moreover have "provider_calls (dynDNSUpdateHandler s clk NewRecorder r wld) = []"
    using cl assms(1) by (simp add: h provider_calls_respond)
  moreover have "final_world (dynDNSUpdateHandler s clk NewRecorder r wld) = Some wld"
    using wl assms(1) by (simp add: h final_world_respond)
  moreover note handler_rejection_view[OF assms, of s' clk NewRecorder wld s]
  ultimately show ?thesis by blast
qed

theorem first_failing_check_decides_witness:
  "first_failing bad_auth_request = Some CheckAuth
   \<and> view CheckAuth (request_with ''GET''
         [(''User-Agent'', ''dyndnsr53-client''), (''Authorization'', ''Basic YmFkOmNyZWRz'')] [])
       = view CheckAuth bad_auth_request
   \<and> response (dynDNSUpdateHandler test_server test_clock NewRecorder bad_auth_request mock)
       = Some (''badauth'' @ [newline], 401)
   \<and> rejections (dynDNSUpdateHandler test_server test_clock NewRecorder bad_auth_request mock)
       = [CheckAuth]
   \<and> provider_calls (dynDNSUpdateHandler test_server test_clock NewRecorder bad_auth_request mock) = []
   \<and> final_world (dynDNSUpdateHandler test_server test_clock NewRecorder bad_auth_request mock)
       = Some mock
   \<and> dynDNSUpdateHandler null_server test_clock NewRecorder
         (request_with ''GET''
           [(''User-Agent'', ''dyndnsr53-client''), (''Authorization'', ''Basic YmFkOmNyZWRz'')] [])
         mock
       = dynDNSUpdateHandler test_server test_clock NewRecorder bad_auth_request mock"
proof -
  have h1: "first_failing bad_auth_request = Some CheckAuth" by code_simp
  have h2: "view CheckAuth (request_with ''GET''
         [(''User-Agent'', ''dyndnsr53-client''), (''Authorization'', ''Basic YmFkOmNyZWRz'')] [])
       = view CheckAuth bad_auth_request" by code_simp
  from first_failing_check_decides[OF h1 h2, of test_server test_clock mock null_server] h1 h2
  show ?thesis by simp
qed

text \<open>
  Claim C3.  The body and the HTTP status of the response are those of the row of the
  table the request falls under: bad or missing user agent, \<open>badagent\<close> and 400; wrong
  method, \<open>badagent\<close> and 405; missing, invalid or wrong credentials, \<open>badauth\<close> and 401;
  missing \<open>hostname\<close>, \<open>nofqdn\<close> and 200; missing \<open>myip\<close>, \<open>dnserr\<close> and 200; provider
  failure, \<open>dnserr\<close> and 200; no provider, or provider success, \<open>good\<close> with the ip and
  200.
\<close>

theorem response_follows_table:
  "response (dynDNSUpdateHandler s clk NewRecorder r wld) =
     Some (fst (table (condition_of s r wld) (Get (req_Query r) ''myip'')) @ [newline],
           snd (table (condition_of s r wld) (Get (req_Query r) ''myip'')))"
proof -
  from handler_shape[of s clk NewRecorder r wld] obtain pre wld' err where
    h: "dynDNSUpdateHandler s clk NewRecorder r wld =
          respond pre wld' clk (final_log clk r) NewRecorder
            (snd (table (condition_of s r wld) (Get (req_Query r) ''myip'')))
            (fst (table (condition_of s r wld) (Get (req_Query r) ''myip''))) err"
    by blast
  show ?thesis by (simp only: h response_respond)
qed

theorem response_follows_table_witness:
  "response (dynDNSUpdateHandler null_server test_clock NewRecorder no_agent_request mock)
     = Some (''badagent'' @ [newline], 400)
   \<and> response (dynDNSUpdateHandler null_server test_clock NewRecorder post_request mock)
     = Some (''badagent'' @ [newline], 405)
   \<and> response (dynDNSUpdateHandler null_server test_clock NewRecorder bad_auth_request mock)
     = Some (''badauth'' @ [newline], 401)
   \<and> response (dynDNSUpdateHandler null_server test_clock NewRecorder no_hostname_request mock)
     = Some (''nofqdn'' @ [newline], 200)
   \<and> response (dynDNSUpdateHandler null_server test_clock NewRecorder no_myip_request mock)
     = Some (''dnserr'' @ [newline], 200)
   \<and> response (dynDNSUpdateHandler route53_server test_clock NewRecorder test_request ([], []))
     = Some (''dnserr'' @ [newline], 200)
   \<and> response (dynDNSUpdateHandler null_server test_clock NewRecorder test_request mock)
     = Some (''good 1.2.3.4'' @ [newline], 200)
   \<and> response (dynDNSUpdateHandler route53_server test_clock NewRecorder home_request ([], []))
     = Some (''good 1.2.3.4'' @ [newline], 200)
   \<and> response (dynDNSUpdateHandler test_server test_clock NewRecorder test_request mock)
     = Some (''good 1.2.3.4'' @ [newline], 200)"
proof -
  have c1: "condition_of null_server no_agent_request mock = BadUserAgent" by code_simp
  have c2: "condition_of null_server post_request mock = WrongMethod" by code_simp
  have c3: "condition_of null_server bad_auth_request mock = BadAuth" by code_simp
  have c4: "condition_of null_server no_hostname_request mock = MissingHostname" by code_simp
  have c5: "condition_of null_server no_myip_request mock = MissingMyip" by code_simp
  have c6: "condition_of route53_server test_request ([], []) = ProviderFails" by code_simp
  have c7: "condition_of null_server test_request mock = ProviderAbsent" by code_simp
  have c8: "condition_of route53_server home_request ([], []) = ProviderSucceeds" by code_simp
  have c9: "condition_of test_server test_request mock = ProviderSucceeds" by code_simp
  have ip: "Get (req_Query test_request) ''myip'' = ''1.2.3.4''"
    "Get (req_Query home_request) ''myip'' = ''1.2.3.4''" by code_simp+
  show ?thesis
    using response_follows_table[of null_server test_clock no_agent_request mock]
      response_follows_table[of null_server test_clock post_request mock]
      response_follows_table[of null_server test_clock bad_auth_request mock]
      response_follows_table[of null_server test_clock no_hostname_request mock]
      response_follows_table[of null_server test_clock no_myip_request mock]
      response_follows_table[of route53_server test_clock test_request "([], [])"]
      response_follows_table[of null_server test_clock test_request mock]
      response_follows_table[of route53_server test_clock home_request "([], [])"]
      response_follows_table[of test_server test_clock test_request mock]
    by (simp add: c1 c2 c3 c4 c5 c6 c7 c8 c9 ip)
qed

text \<open>
  Claim C4.  A request that passes the user agent and method checks and whose
  \<open>Authorization\<close> header is missing, or does not begin with \<open>Basic \<close>, or carries a
  payload that is not valid base64, or decodes to a payload without a colon, or decodes
  to a user name and password that are not the configured ones, is answered \<open>badauth\<close>
  with status 401; the provider is not called and its world is unchanged.
\<close>

theorem auth_failures_badauth:
  assumes "userAgent_ok r" and "method_ok r"
    and "req_Header r ''Authorization'' = []
       \<or> \<not> HasPrefix (Get (req_Header r) ''Authorization'') ''Basic ''
       \<or> DecodeString (drop 6 (Get (req_Header r) ''Authorization'')) = None
       \<or> (\<exists>payload. DecodeString (drop 6 (Get (req_Header r) ''Authorization'')) = Some payload
             \<and> CHR '':'' \<notin> set payload)
       \<or> (\<exists>u pw. DecodeString (drop 6 (Get (req_Header r) ''Authorization'')) = Some (u @ '':'' @ pw)
             \<and> CHR '':'' \<notin> set u \<and> (u \<noteq> validUser \<or> pw \<noteq> validPassword))"
  shows "response (dynDNSUpdateHandler s clk NewRecorder r wld) = Some (MsgBadAuth @ [newline], 401)
       \<and> provider_calls (dynDNSUpdateHandler s clk NewRecorder r wld) = []
       \<and> final_world (dynDNSUpdateHandler s clk NewRecorder r wld) = Some wld"
proof -
  have na: "\<not> auth_ok r"
  proof
    assume "auth_ok r"
    from auth_ok_parts[OF this] obtain payload where
      hp: "HasPrefix (Get (req_Header r) ''Authorization'') ''Basic ''" and
      dec: "DecodeString (drop 6 (Get (req_Header r) ''Authorization'')) = Some payload" and
      sp: "SplitN payload '':'' 2 = [validUser, validPassword]"
      by blast
    from hp have present: "req_Header r ''Authorization'' \<noteq> []"
      by (auto simp: Get_def HasPrefix_def)
    from sp have colon: "CHR '':'' \<in> set payload"
      by (auto simp: SplitN_colon split: if_splits)
    have "\<not> (\<exists>u pw. payload = u @ '':'' @ pw \<and> CHR '':'' \<notin> set u
                \<and> (u \<noteq> validUser \<or> pw \<noteq> validPassword))"
    proof
      assume "\<exists>u pw. payload = u @ '':'' @ pw \<and> CHR '':'' \<notin> set u
                \<and> (u \<noteq> validUser \<or> pw \<noteq> validPassword)"
      then obtain u pw where p: "payload = u @ '':'' @ pw" and nc: "CHR '':'' \<notin> set u"
        and ne: "u \<noteq> validUser \<or> pw \<noteq> validPassword" by blast
      have "SplitN payload '':'' 2 = [u, pw]"
        unfolding p SplitN_colon using takeWhile_colon[OF nc, of pw] dropWhile_colon[OF nc, of pw]
        by simp
      with sp ne show False by simp
    qed
    with assms(3) hp dec present colon show False by auto
  qed
  note h = handler_bad_auth[OF assms(1,2) na, of s clk NewRecorder wld]
  show ?thesis
    by (simp add: h response_respond provider_calls_respond final_world_respond
          auth_failure_warn MsgBadAuth_def)
qed

theorem auth_failures_badauth_witness:
  "userAgent_ok bad_auth_request \<and> method_ok bad_auth_request
   \<and> DecodeString (drop 6 (Get (req_Header bad_auth_request) ''Authorization''))
       = Some (''bad'' @ '':'' @ ''creds'')
   \<and> CHR '':'' \<notin> set ''bad'' \<and> ''bad'' \<noteq> validUser
   \<and> response (dynDNSUpdateHandler test_server test_clock NewRecorder bad_auth_request mock)
       = Some (MsgBadAuth @ [newline], 401)
   \<and> provider_calls (dynDNSUpdateHandler test_server test_clock NewRecorder bad_auth_request mock) = []
   \<and> final_world (dynDNSUpdateHandler test_server test_clock NewRecorder bad_auth_request mock)
       = Some mock
   \<and> response (dynDNSUpdateHandler test_server test_clock NewRecorder
         (request_with ''GET'' [(''User-Agent'', ''dyndnsr53-client'')]
            [(''hostname'', ''test.example.com''), (''myip'', ''1.2.3.4'')]) mock)
       = Some (MsgBadAuth @ [newline], 401)
   \<and> response (dynDNSUpdateHandler test_server test_clock NewRecorder
         (request_with ''GET''
            [(''User-Agent'', ''dyndnsr53-client''), (''Authorization'', ''Bearer dXNlcjpwYXNz'')]
            [(''hostname'', ''test.example.com''), (''myip'', ''1.2.3.4'')]) mock)
       = Some (MsgBadAuth @ [newline], 401)
   \<and> response (dynDNSUpdateHandler test_server test_clock NewRecorder
         (request_with ''GET''
            [(''User-Agent'', ''dyndnsr53-client''), (''Authorization'', ''Basic dXNlcjpwYXN'')]
            [(''hostname'', ''test.example.com''), (''myip'', ''1.2.3.4'')]) mock)
       = Some (MsgBadAuth @ [newline], 401)
   \<and> response (dynDNSUpdateHandler test_server test_clock NewRecorder
         (request_with ''GET''
            [(''User-Agent'', ''dyndnsr53-client''), (''Authorization'', ''Basic dXNlcg=='')]
            [(''hostname'', ''test.example.com''), (''myip'', ''1.2.3.4'')]) mock)
       = Some (MsgBadAuth @ [newline], 401)"
proof -
  have others:
    "response (dynDNSUpdateHandler test_server test_clock NewRecorder
         (request_with ''GET'' [(''User-Agent'', ''dyndnsr53-client'')]
            [(''hostname'', ''test.example.com''), (''myip'', ''1.2.3.4'')]) mock)
       = Some (MsgBadAuth @ [newline], 401)
   \<and> response (dynDNSUpdateHandler test_server test_clock NewRecorder
         (request_with ''GET''
            [(''User-Agent'', ''dyndnsr53-client''), (''Authorization'', ''Bearer dXNlcjpwYXNz'')]
            [(''hostname'', ''test.example.com''), (''myip'', ''1.2.3.4'')]) mock)
       = Some (MsgBadAuth @ [newline], 401)
   \<and> response (dynDNSUpdateHandler test_server test_clock NewRecorder
         (request_with ''GET''
            [(''User-Agent'', ''dyndnsr53-client''), (''Authorization'', ''Basic dXNlcjpwYXN'')]
            [(''hostname'', ''test.example.com''), (''myip'', ''1.2.3.4'')]) mock)
       = Some (MsgBadAuth @ [newline], 401)
   \<and> response (dynDNSUpdateHandler test_server test_clock NewRecorder
         (request_with ''GET''
            [(''User-Agent'', ''dyndnsr53-client''), (''Authorization'', ''Basic dXNlcg=='')]
            [(''hostname'', ''test.example.com''), (''myip'', ''1.2.3.4'')]) mock)
       = Some (MsgBadAuth @ [newline], 401)"
    by code_simp
  have h1: "userAgent_ok bad_auth_request" and h2: "method_ok bad_auth_request"
    by code_simp+
  have d: "DecodeString (drop 6 (Get (req_Header bad_auth_request) ''Authorization''))
       = Some (''bad'' @ '':'' @ ''creds'')"
    by code_simp
  have n: "CHR '':'' \<notin> set ''bad''" "''bad'' \<noteq> validUser"
    by (simp_all add: validUser_def)
  from d n have h3: "req_Header bad_auth_request ''Authorization'' = []
       \<or> \<not> HasPrefix (Get (req_Header bad_auth_request) ''Authorization'') ''Basic ''
       \<or> DecodeString (drop 6 (Get (req_Header bad_auth_request) ''Authorization'')) = None
       \<or> (\<exists>payload. DecodeString (drop 6 (Get (req_Header bad_auth_request) ''Authorization'')) = Some payload
             \<and> CHR '':'' \<notin> set payload)
       \<or> (\<exists>u pw. DecodeString (drop 6 (Get (req_Header bad_auth_request) ''Authorization'')) = Some (u @ '':'' @ pw)
             \<and> CHR '':'' \<notin> set u \<and> (u \<noteq> validUser \<or> pw \<noteq> validPassword))"
    by blast
  from auth_failures_badauth[OF h1 h2 h3, of test_server test_clock mock] h1 h2 d n others
  show ?thesis by blast
qed

text \<open>
  Claim C5.  The token of the response body is one of \<open>good\<close>, \<open>badauth\<close>, \<open>badagent\<close>,
  \<open>nofqdn\<close>, \<open>dnserr\<close>, and none of the reserved codes \<open>nochg\<close>, \<open>!donator\<close>, \<open>nohost\<close>,
  \<open>numhost\<close>, \<open>abuse\<close>, \<open>911\<close>; it is \<open>good\<close> exactly on the paths of provider success and
  of no provider; the body is the token followed by a newline, with a space and the ip
  between them when the token is \<open>good\<close>.
\<close>

theorem response_codes:
  "\<exists>body status.
     response (dynDNSUpdateHandler s clk NewRecorder r wld) = Some (body, status)
     \<and> code_token body \<in> set [MsgGood, MsgBadAuth, MsgBadAgent, MsgNotFQDN, MsgDNSErr]
     \<and> code_token body \<notin> set [MsgNoChg, MsgNotDonator, MsgNoHost, MsgNumHost, MsgAbuse, Msg911]
     \<and> (code_token body = MsgGood)
         = (condition_of s r wld = ProviderAbsent \<or> condition_of s r wld = ProviderSucceeds)
     \<and> body = (if code_token body = MsgGood
               then MsgGood @ '' '' @ Get (req_Query r) ''myip''
               else code_token body) @ [newline]"
proof -
  let ?c = "condition_of s r wld" and ?ip = "Get (req_Query r) ''myip''"
  let ?body = "fst (table ?c ?ip) @ [newline]"
  have tok: "code_token ?body
       = (if ?c = ProviderAbsent \<or> ?c = ProviderSucceeds then ''good'' else fst (table ?c ?ip))"
    by (rule table_code_token)
  have "code_token ?body \<in> set [MsgGood, MsgBadAuth, MsgBadAgent, MsgNotFQDN, MsgDNSErr]"
    unfolding tok by (cases ?c) (simp_all add: MsgGood_def MsgBadAuth_def MsgBadAgent_def
        MsgNotFQDN_def MsgDNSErr_def)
  moreover have "code_token ?body \<notin> set [MsgNoChg, MsgNotDonator, MsgNoHost, MsgNumHost, MsgAbuse, Msg911]"
    unfolding tok by (cases ?c) (simp_all add: MsgNoChg_def MsgNotDonator_def MsgNoHost_def
        MsgNumHost_def MsgAbuse_def Msg911_def)
  moreover have "(code_token ?body = MsgGood) = (?c = ProviderAbsent \<or> ?c = ProviderSucceeds)"
    unfolding tok by (cases ?c) (simp_all add: MsgGood_def)
  moreover have "?body = (if code_token ?body = MsgGood then MsgGood @ '' '' @ ?ip
                          else code_token ?body) @ [newline]"
    unfolding tok by (cases ?c) (simp_all add: MsgGood_def)
  moreover have "response (dynDNSUpdateHandler s clk NewRecorder r wld) = Some (?body, snd (table ?c ?ip))"
  proof -
    from handler_shape[of s clk NewRecorder r wld] obtain pre wld' err where
      h: "dynDNSUpdateHandler s clk NewRecorder r wld =
            respond pre wld' clk (final_log clk r) NewRecorder
              (snd (table ?c ?ip)) (fst (table ?c ?ip)) err"
      by blast
    show ?thesis by (simp only: h response_respond)
  qed
  ultimately show ?thesis by blast
qed


text \<open>
  Claim C9.  When the start time can be written as a JSON timestamp, every run of the
  handler gives exactly one record to \<open>klog\<close>.  The record holds the status and the
  response code that are written (with the ip, after \<open>good\<close>), the duration, and, once
  the credentials are accepted, the user name, the fqdn and the ip, each when it is not
  empty.  Every string is in the record as JSON holds it: a byte that is not valid UTF-8
  is \<open>U+FFFD\<close> there.
\<close>

theorem one_log_record:
  assumes "rfc3339 (now clk) = Some ts"
  shows "\<exists>err.
           response (dynDNSUpdateHandler s clk NewRecorder r wld)
             = Some (fst (table (condition_of s r wld) (Get (req_Query r) ''myip'')) @ [newline],
                     snd (table (condition_of s r wld) (Get (req_Query r) ''myip'')))
         \<and> klog_records (dynDNSUpdateHandler s clk NewRecorder r wld) =
             [[(''timestamp'', JString ts),
               (''remote_addr'', JString (json_utf8 (req_RemoteAddr r))),
               (''method'', JString (json_utf8 (req_Method r))),
               (''user_agent'', JString (json_utf8 (Get (req_Header r) ''User-Agent'')))]
              @ identity_members r
              @ [(''status_code'',
                  JNumber (snd (table (condition_of s r wld) (Get (req_Query r) ''myip'')))),
                 (''response'',
                  JString (fst (table (condition_of s r wld)
                                  (json_utf8 (Get (req_Query r) ''myip'')))))]
              @ omitempty ''error_message'' err
              @ [(''duration'', JString (json_utf8 (since clk)))]]"
proof -
  from handler_shape[of s clk NewRecorder r wld] obtain pre wld' err where
    h: "dynDNSUpdateHandler s clk NewRecorder r wld =
          respond pre wld' clk (final_log clk r) NewRecorder
            (snd (table (condition_of s r wld) (Get (req_Query r) ''myip'')))
            (fst (table (condition_of s r wld) (Get (req_Query r) ''myip''))) err"
    and kl: "concat (map klog_of pre) = []"
    by blast
  let ?msg = "fst (table (condition_of s r wld) (Get (req_Query r) ''myip''))"
  let ?status = "snd (table (condition_of s r wld) (Get (req_Query r) ''myip''))"
  have "response (dynDNSUpdateHandler s clk NewRecorder r wld) = Some (?msg @ [newline], ?status)"
    by (simp only: h response_respond)
  moreover have "klog_records (dynDNSUpdateHandler s clk NewRecorder r wld) =
             [[(''timestamp'', JString ts),
               (''remote_addr'', JString (json_utf8 (req_RemoteAddr r))),
               (''method'', JString (json_utf8 (req_Method r))),
               (''user_agent'', JString (json_utf8 (Get (req_Header r) ''User-Agent'')))]
              @ identity_members r
              @ [(''status_code'', JNumber ?status), (''response'', JString (json_utf8 ?msg))]
              @ omitempty ''error_message'' err
              @ [(''duration'', JString (json_utf8 (since clk)))]]"
    using kl by (simp only: h klog_records_respond json_Marshal_final_log[OF assms]
        option.case append_Nil)
  ultimately show ?thesis
    unfolding json_utf8_table by blast
qed

theorem one_log_record_witness:
  "rfc3339 (now test_clock) = Some ''2025-09-17T20:38:09.588323+02:00''
   \<and> (\<exists>err.
           response (dynDNSUpdateHandler test_server test_clock NewRecorder raw_ip_request mock)
             = Some (fst (table (condition_of test_server raw_ip_request mock)
                            (Get (req_Query raw_ip_request) ''myip'')) @ [newline],
                     snd (table (condition_of test_server raw_ip_request mock)
                            (Get (req_Query raw_ip_request) ''myip'')))
         \<and> klog_records (dynDNSUpdateHandler test_server test_clock NewRecorder raw_ip_request mock) =
             [[(''timestamp'', JString ''2025-09-17T20:38:09.588323+02:00''),
               (''remote_addr'', JString (json_utf8 (req_RemoteAddr raw_ip_request))),
               (''method'', JString (json_utf8 (req_Method raw_ip_request))),
               (''user_agent'', JString (json_utf8 (Get (req_Header raw_ip_request) ''User-Agent'')))]
              @ identity_members raw_ip_request
              @ [(''status_code'',
                  JNumber (snd (table (condition_of test_server raw_ip_request mock)
                                  (Get (req_Query raw_ip_request) ''myip'')))),
                 (''response'',
                  JString (fst (table (condition_of test_server raw_ip_request mock)
                                  (json_utf8 (Get (req_Query raw_ip_request) ''myip'')))))]
              @ omitempty ''error_message'' err
              @ [(''duration'', JString (json_utf8 (since test_clock)))]])
   \<and> response (dynDNSUpdateHandler test_server test_clock NewRecorder raw_ip_request mock)
       = Some (''good '' @ [CHR 0xFF] @ [newline], 200)
   \<and> klog_records (dynDNSUpdateHandler test_server test_clock NewRecorder raw_ip_request mock) =
        [[(''timestamp'', JString ''2025-09-17T20:38:09.588323+02:00''),
          (''remote_addr'', JString ''192.0.2.1:1234''),
          (''method'', JString ''GET''),
          (''user_agent'', JString ''dyndnsr53-client''),
          (''username'', JString ''user''),
          (''fqdn'', JString ''test.example.com''),
          (''ip'', JString [CHR 0xEF, CHR 0xBF, CHR 0xBD]),
          (''status_code'', JNumber 200),
          (''response'', JString (''good '' @ [CHR 0xEF, CHR 0xBF, CHR 0xBD])),
          (''duration'', JString ''70.166ms'')]]
   \<and> klog_records (dynDNSUpdateHandler test_server test_clock NewRecorder test_request mock) =
        [[(''timestamp'', JString ''2025-09-17T20:38:09.588323+02:00''),
          (''remote_addr'', JString ''192.0.2.1:1234''),
          (''method'', JString ''GET''),
          (''user_agent'', JString ''dyndnsr53-client''),
          (''username'', JString ''user''),
          (''fqdn'', JString ''test.example.com''),
          (''ip'', JString ''1.2.3.4''),
          (''status_code'', JNumber 200),
          (''response'', JString ''good 1.2.3.4''),
          (''duration'', JString ''70.166ms'')]]
   \<and> klog_records (dynDNSUpdateHandler null_server test_clock NewRecorder bad_auth_request mock) =
        [[(''timestamp'', JString ''2025-09-17T20:38:09.588323+02:00''),
          (''remote_addr'', JString ''192.0.2.1:1234''),
          (''method'', JString ''GET''),
          (''user_agent'', JString ''dyndnsr53-client''),
          (''status_code'', JNumber 401),
          (''response'', JString ''badauth''),
          (''error_message'', JString ''invalid credentials''),
          (''duration'', JString ''70.166ms'')]]"
proof -
  have h: "rfc3339 (now test_clock) = Some ''2025-09-17T20:38:09.588323+02:00''"
    by (simp add: test_clock_def)
  have v: "response (dynDNSUpdateHandler test_server test_clock NewRecorder raw_ip_request mock)
       = Some (''good '' @ [CHR 0xFF] @ [newline], 200)
   \<and> klog_records (dynDNSUpdateHandler test_server test_clock NewRecorder raw_ip_request mock) =
        [[(''timestamp'', JString ''2025-09-17T20:38:09.588323+02:00''),
          (''remote_addr'', JString ''192.0.2.1:1234''),
          (''method'', JString ''GET''),
          (''user_agent'', JString ''dyndnsr53-client''),
          (''username'', JString ''user''),
          (''fqdn'', JString ''test.example.com''),
          (''ip'', JString [CHR 0xEF, CHR 0xBF, CHR 0xBD]),
          (''status_code'', JNumber 200),
          (''response'', JString (''good '' @ [CHR 0xEF, CHR 0xBF, CHR 0xBD])),
          (''duration'', JString ''70.166ms'')]]
   \<and> klog_records (dynDNSUpdateHandler test_server test_clock NewRecorder test_request mock) =
        [[(''timestamp'', JString ''2025-09-17T20:38:09.588323+02:00''),
          (''remote_addr'', JString ''192.0.2.1:1234''),
          (''method'', JString ''GET''),
          (''user_agent'', JString ''dyndnsr53-client''),
          (''username'', JString ''user''),
          (''fqdn'', JString ''test.example.com''),
          (''ip'', JString ''1.2.3.4''),
          (''status_code'', JNumber 200),
          (''response'', JString ''good 1.2.3.4''),
          (''duration'', JString ''70.166ms'')]]
   \<and> klog_records (dynDNSUpdateHandler null_server test_clock NewRecorder bad_auth_request mock) =
        [[(''timestamp'', JString ''2025-09-17T20:38:09.588323+02:00''),
          (''remote_addr'', JString ''192.0.2.1:1234''),
          (''method'', JString ''GET''),
          (''user_agent'', JString ''dyndnsr53-client''),
          (''status_code'', JNumber 401),
          (''response'', JString ''badauth''),
          (''error_message'', JString ''invalid credentials''),
          (''duration'', JString ''70.166ms'')]]"
    by code_simp
  from one_log_record[OF h, of test_server raw_ip_request mock] h v show ?thesis
    by blast
qed

end
